theory Spec2Isabelle
  imports Main "HOL-Library.Word"
begin

unbundle bit_operations_syntax

section \<open>Machine types\<close>

type_synonym u8 = "8 word"
type_synonym u32 = "32 word"
type_synonym u64 = "64 word"

text \<open>The backend is built for x64 hosts only, where \<^verbatim>\<open>size_t\<close> has 64 bits.\<close>

type_synonym size_t = "64 word"

text \<open>
  Modelled from the spec: \<^verbatim>\<open>Page::Size\<close> is declared outside
  \<^verbatim>\<open>bochscpu_backend.h\<close>; the spec fixes the page at 4096 bytes.
\<close>

definition Page_Size :: u64 where
  "Page_Size = 4096"

text \<open>
  Modelled from the spec: \<^verbatim>\<open>Gpa_t\<close> and \<^verbatim>\<open>Gva_t\<close> are declared outside
  \<^verbatim>\<open>bochscpu_backend.h\<close>; the spec describes them as distinct wrappers of one raw
  64-bit value, which \<^verbatim>\<open>U64()\<close> reads.
\<close>

datatype Gpa_t = Gpa_t (Gpa_U64: u64)

datatype Gva_t = Gva_t (Gva_U64: u64)

section \<open>Run statistics: \<^verbatim>\<open>struct BochscpuRunStats_t\<close>\<close>

record BochscpuRunStats_t =
  NumberInstructionsExecuted :: u64
  NumberMemoryAccesses :: u64
  AggregatedCodeCoverage :: u64
  DirtyGpas :: u64

text \<open>The member initialisers of the struct: every counter starts at 0.\<close>

definition BochscpuRunStats_t_init :: BochscpuRunStats_t where
  "BochscpuRunStats_t_init =
     \<lparr>NumberInstructionsExecuted = 0, NumberMemoryAccesses = 0,
      AggregatedCodeCoverage = 0, DirtyGpas = 0\<rparr>"

text \<open>
  A call of \<^verbatim>\<open>fmt::print\<close> is its format string with the list of its arguments.
  \<^verbatim>\<open>Print\<close> returns the calls it makes, in order. The constant \<^verbatim>\<open>_1MB\<close> is declared
  outside the header and is the parameter \<open>OneMB\<close>. The arithmetic is that of
  \<^verbatim>\<open>uint64_t\<close>: the product wraps, the quotients round down.
\<close>

type_synonym fmt_print = "string \<times> u64 list"

definition DirtyMemoryBytes :: "BochscpuRunStats_t \<Rightarrow> u64" where
  "DirtyMemoryBytes s = DirtyGpas s * Page_Size"

definition DirtyMemoryMb :: "BochscpuRunStats_t \<Rightarrow> u64" where
  "DirtyMemoryMb s = DirtyGpas s div Page_Size"

definition MemoryAccessMb :: "u64 \<Rightarrow> BochscpuRunStats_t \<Rightarrow> u64" where
  "MemoryAccessMb OneMB s = NumberMemoryAccesses s div OneMB"

definition Print :: "u64 \<Rightarrow> BochscpuRunStats_t \<Rightarrow> fmt_print list" where
  "Print OneMB s =
     [(''--------------------------------------------------\<newline>'', []),
      (''Run stats:\<newline>'', []),
      (''Instructions executed: {} ({} unique)\<newline>'',
         [NumberInstructionsExecuted s, AggregatedCodeCoverage s]),
      (''          Dirty pages: {} bytes ({} MB)\<newline>'',
         [DirtyMemoryBytes s, DirtyMemoryMb s]),
      (''      Memory accesses: {} bytes ({} MB)\<newline>'',
         [NumberMemoryAccesses s, MemoryAccessMb OneMB s])]"

definition Reset :: "BochscpuRunStats_t \<Rightarrow> BochscpuRunStats_t" where
  "Reset s = s\<lparr>NumberInstructionsExecuted := 0, NumberMemoryAccesses := 0\<rparr>"

section \<open>Hash functions of the lookup tables\<close>

text \<open>The conversion of the \<^verbatim>\<open>uint64_t\<close> to the \<^verbatim>\<open>size_t\<close> returned is \<open>ucast\<close>.\<close>

definition IdentityGpaHash :: "Gpa_t \<Rightarrow> size_t" where
  "IdentityGpaHash Key = ucast (Gpa_U64 Key)"

definition IdentityGvaHash :: "Gva_t \<Rightarrow> size_t" where
  "IdentityGvaHash Key = ucast (Gva_U64 Key)"

text \<open>
  The hash each container is declared with. \<^verbatim>\<open>AggregatedCodeCoverage_\<close> names
  \<^verbatim>\<open>IdentityGvaHash\<close> and \<^verbatim>\<open>DirtyGpas_\<close> names \<^verbatim>\<open>IdentityGpaHash\<close> in the
  declaration. \<^verbatim>\<open>LastNewCoverage_\<close> (\<^verbatim>\<open>tsl::robin_set<Gva_t>\<close>) and
  \<^verbatim>\<open>Breakpoints_\<close> (\<^verbatim>\<open>tsl::robin_map<Gva_t, BreakpointHandler_t>\<close>) name none: they
  hash with the container's default, \<^verbatim>\<open>std::hash<Gva_t>\<close>, a specialisation declared
  outside the header, of which nothing is known here.
\<close>

definition AggregatedCodeCoverage_hash :: "Gva_t \<Rightarrow> size_t" where
  "AggregatedCodeCoverage_hash = IdentityGvaHash"

definition DirtyGpas_hash :: "Gpa_t \<Rightarrow> size_t" where
  "DirtyGpas_hash = IdentityGpaHash"

section \<open>The backend: \<^verbatim>\<open>class BochscpuBackend_t\<close>\<close>

text \<open>
  Modelled from the spec: \<^verbatim>\<open>TestcaseResult_t\<close> and \<^verbatim>\<open>TraceType_t\<close> are declared
  outside the header, which uses \<^verbatim>\<open>Ok_t()\<close> and \<^verbatim>\<open>TraceType_t::NoTrace\<close>. The spec
  gives the result as the tagged variant Ok, Crash(reason), Timeout, and the trace type
  as None, Instructions or Full. The reason of a crash is the exception vector.
\<close>

datatype TestcaseResult_t = Ok_t | Crash_t u32 | Timeout_t

datatype TraceType_t = NoTrace | Instructions | Full

text \<open>
  The members of the class, in the order of the header. A member \<^verbatim>\<open>X_\<close> of the class
  is the field \<open>X'\<close>. A pointer is an \<open>option\<close>, \<^verbatim>\<open>nullptr\<close> being \<open>None\<close>; the
  handle \<^verbatim>\<open>Cpu_\<close>, the trace file and a breakpoint handler are opaque and stand as
  numbers. \<^verbatim>\<open>DmpParser_\<close> is the parsed dump: the content of each page of the
  snapshot under its page-aligned address. The hook table and the hook chain hold
  function pointers only and are left out.

  Modelled from the spec: the header has no member for the writable copies of the
  dirtied pages. The spec keeps, beside the immutable snapshot, a per-run overlay from a
  page to its mutable buffer; it is the last field, \<open>MutablePages\<close>.
\<close>

type_synonym page = "u8 list"

record BochscpuBackend_t =
  DmpParser' :: "Gpa_t \<rightharpoonup> page"
  AggregatedCodeCoverage' :: "Gva_t set"
  LastNewCoverage' :: "Gva_t set"
  DirtyGpas' :: "Gpa_t set"
  Breakpoints' :: "Gva_t \<rightharpoonup> nat"
  Cpu' :: "nat option"
  InstructionLimit' :: u64
  TraceFile' :: "nat option"
  TraceType' :: TraceType_t
  TestcaseResult' :: TestcaseResult_t
  InitialCr3' :: u64
  RunStats' :: BochscpuRunStats_t
  Seed' :: u64
  TestcaseBuffer' :: "u8 list option"
  TestcaseBufferSize' :: u64
  MutablePages :: "Gpa_t \<rightharpoonup> page"

text \<open>The default member initialisers of the header; a container starts empty.\<close>

definition member_initializers :: BochscpuBackend_t where
  "member_initializers =
     \<lparr>DmpParser' = Map.empty,
      AggregatedCodeCoverage' = {},
      LastNewCoverage' = {},
      DirtyGpas' = {},
      Breakpoints' = Map.empty,
      Cpu' = None,
      InstructionLimit' = 0,
      TraceFile' = None,
      TraceType' = NoTrace,
      TestcaseResult' = Ok_t,
      InitialCr3' = 0,
      RunStats' = BochscpuRunStats_t_init,
      Seed' = 0,
      TestcaseBuffer' = None,
      TestcaseBufferSize' = 0,
      MutablePages = Map.empty\<rparr>"

text \<open>
  Modelled from the spec: the body of the constructor \<^verbatim>\<open>BochscpuBackend_t()\<close> is not
  in the header. The spec gives construction no effect on the members modelled here, so
  the new object is the one the member initialisers build.
\<close>

definition BochscpuBackend_t_ctor :: BochscpuBackend_t where
  "BochscpuBackend_t_ctor = member_initializers"

text \<open>
  Modelled from the spec: the body of \<^verbatim>\<open>SetLimit\<close> is not in the header. It sets the
  instruction budget of the runs that follow.
\<close>

definition SetLimit :: "u64 \<Rightarrow> BochscpuBackend_t \<Rightarrow> BochscpuBackend_t" where
  "SetLimit InstructionLimit s = s\<lparr>InstructionLimit' := InstructionLimit\<rparr>"

section \<open>Memory manager\<close>

text \<open>
  Modelled from the spec: \<^verbatim>\<open>Align\<close> and \<^verbatim>\<open>Offset\<close> of an address are declared
  outside the header. A page is the 4096-byte alignment unit: the aligned address clears
  the low twelve bits, the offset keeps them.
\<close>

definition Gpa_Align :: "Gpa_t \<Rightarrow> Gpa_t" where
  "Gpa_Align Gpa = Gpa_t (Gpa_U64 Gpa AND NOT (Page_Size - 1))"

definition Gpa_Offset :: "Gpa_t \<Rightarrow> nat" where
  "Gpa_Offset Gpa = unat (Gpa_U64 Gpa AND (Page_Size - 1))"

text \<open>
  Modelled from the spec: the body of \<^verbatim>\<open>GetPhysicalPage\<close> is not in the header. It
  looks the page of the address up in the snapshot; \<open>None\<close> is the null pointer of a
  page that is not part of the snapshot.
\<close>

definition GetPhysicalPage :: "BochscpuBackend_t \<Rightarrow> Gpa_t \<Rightarrow> page option" where
  "GetPhysicalPage s PhysicalAddress = DmpParser' s (Gpa_Align PhysicalAddress)"

text \<open>
  Modelled from the spec: the body of \<^verbatim>\<open>DirtyGpa\<close> is not in the header. It marks the
  page containing the address as dirty and allocates the mutable copy of the page the
  first time; it is a no-op on a page already dirty; it fails only on a page that the
  snapshot does not have.
\<close>

definition DirtyGpa :: "Gpa_t \<Rightarrow> BochscpuBackend_t \<Rightarrow> bool \<times> BochscpuBackend_t" where
  "DirtyGpa Gpa s =
     (let Page = Gpa_Align Gpa in
      if Page \<in> DirtyGpas' s then (True, s)
      else
        (case GetPhysicalPage s Page of
           None \<Rightarrow> (False, s)
         | Some Content \<Rightarrow>
             (True, s\<lparr>DirtyGpas' := insert Page (DirtyGpas' s),
                      MutablePages := (MutablePages s)(Page \<mapsto> Content)\<rparr>)))"

text \<open>The calls \<^verbatim>\<open>DirtyGpa(g)\<close> for the addresses of a list, one after the other, with
  the value each call returns.\<close>

fun DirtyGpa_calls :: "Gpa_t list \<Rightarrow> BochscpuBackend_t \<Rightarrow> bool list \<times> BochscpuBackend_t" where
  "DirtyGpa_calls [] s = ([], s)"
| "DirtyGpa_calls (Gpa # Gpas) s =
     (let (r, s1) = DirtyGpa Gpa s;
          (rs, s2) = DirtyGpa_calls Gpas s1
      in (r # rs, s2))"

text \<open>
  Modelled from the spec: the body of \<^verbatim>\<open>PhysTranslate\<close> is not in the header. It
  resolves a physical address to its backing bytes, from the address to the end of its
  page: in the mutable copy when the page is in the dirty set, else in the page of the
  snapshot, else the null pointer.
\<close>

definition PhysTranslate :: "BochscpuBackend_t \<Rightarrow> Gpa_t \<Rightarrow> u8 list option" where
  "PhysTranslate s Gpa =
     (let Page = Gpa_Align Gpa in
      map_option (drop (Gpa_Offset Gpa))
        (if Page \<in> DirtyGpas' s then MutablePages s Page else GetPhysicalPage s Page))"

text \<open>
  Modelled from the spec: \<^verbatim>\<open>CpuState_t\<close> is declared outside the header; it is the
  register file with the root of the page tables. What makes a state structurally
  invalid is not given: it is the parameter \<open>Valid\<close> of \<open>Restore\<close>.
\<close>

record CpuState_t =
  Regs :: "nat \<Rightarrow> u64"
  Cr3 :: u64

text \<open>
  Modelled from the spec: the body of \<^verbatim>\<open>Restore\<close> is not in the header. It reverts
  every dirty page to the content the snapshot has, clears the dirty set, then applies
  the state to the processor; it fails only on a state that is structurally invalid.
\<close>

definition Restore ::
  "(CpuState_t \<Rightarrow> bool) \<Rightarrow> CpuState_t \<Rightarrow> BochscpuBackend_t \<Rightarrow> bool \<times> BochscpuBackend_t" where
  "Restore Valid CpuState s =
     (let s1 = s\<lparr>MutablePages :=
                   (\<lambda>Page. if Page \<in> DirtyGpas' s then GetPhysicalPage s Page
                            else MutablePages s Page)\<rparr>;
          s2 = s1\<lparr>DirtyGpas' := {}\<rparr>
      in if Valid CpuState then (True, s2\<lparr>InitialCr3' := Cr3 CpuState\<rparr>) else (False, s2))"

section \<open>Coverage tracker\<close>

text \<open>
  Modelled from the spec: the coverage step of the before-execution hook is not in the
  header. The header documents \<^verbatim>\<open>AggregatedCodeCoverage_\<close> as the unique addresses
  executed across runs and \<^verbatim>\<open>LastNewCoverage_\<close> as the new coverage of the latest
  testcase: an address enters both when the aggregated set does not have it yet, and
  the count of unique addresses goes up by one; an address already aggregated changes
  nothing.
\<close>

definition RecordHit :: "Gva_t \<Rightarrow> BochscpuBackend_t \<Rightarrow> BochscpuBackend_t" where
  "RecordHit Gva s =
     (if Gva \<in> AggregatedCodeCoverage' s then s
      else s\<lparr>AggregatedCodeCoverage' := insert Gva (AggregatedCodeCoverage' s),
             LastNewCoverage' := insert Gva (LastNewCoverage' s),
             RunStats' := (RunStats' s)\<lparr>AggregatedCodeCoverage :=
                             AggregatedCodeCoverage (RunStats' s) + 1\<rparr>\<rparr>)"

text \<open>
  Modelled from the spec: the body of \<^verbatim>\<open>RevokeLastNewCoverage\<close> is not in the header.
  It erases from the aggregated coverage every address of \<^verbatim>\<open>LastNewCoverage_\<close>, clears
  \<^verbatim>\<open>LastNewCoverage_\<close> and reports success.
\<close>

definition RevokeLastNewCoverage :: "BochscpuBackend_t \<Rightarrow> bool \<times> BochscpuBackend_t" where
  "RevokeLastNewCoverage s =
     (True, s\<lparr>AggregatedCodeCoverage' := AggregatedCodeCoverage' s - LastNewCoverage' s,
              LastNewCoverage' := {}\<rparr>)"

section \<open>Hooks and execution control\<close>

text \<open>
  The emulation engine is outside the repository. Of the guest it runs, the backend
  sees the calls of its hooks. An instruction is the address the before-execution hook
  finds in the instruction pointer, what the breakpoint handler decides when it is
  called at this point of the execution (to continue, or to stop with a result), and
  the event of the execution of the instruction, which is none, an exception with its
  vector, or a write of the page-table root with the new value. The guest is the
  sequence of the instructions the engine comes to, by position.
\<close>

datatype ins_event = Retires | Exception u32 | TlbControl u64

record Ins =
  Ins_Rip :: Gva_t
  Ins_Handler :: "TestcaseResult_t option"
  Ins_Event :: ins_event

text \<open>
  A hook returns the backend with the flag of a stop requested from the engine during
  the hook.

  Modelled from the spec: the bodies of \<^verbatim>\<open>Stop\<close>, \<^verbatim>\<open>BeforeExecutionHook\<close>,
  \<^verbatim>\<open>ExceptionHook\<close> and \<^verbatim>\<open>TlbControlHook\<close> are not in the header.
  \<^item> \<^verbatim>\<open>Stop\<close> records the result as the outcome and asks the engine to halt.
  \<^item> The before-execution hook checks the breakpoint table: where a handler is
    registered for the address of the instruction it is called, and it may stop the
    run with a result. The hook then records coverage for the address, increments the
    instruction counter and, when the counter has reached the limit, signals the
    timeout and stops. The counter has reached the limit when it is at least the
    limit. A stop that the handler requests takes effect when the hook returns: the
    hook goes on, and a timeout signalled in the same hook replaces the result of the
    handler.
  \<^item> The exception hook turns a fatal vector into a crash and stops; a benign vector
    passes. Which vectors are fatal depends on the target: the parameter \<open>Fatal\<close>.
  \<^item> The guest has left the target process when the root of its page tables differs
    from the initial one: the run stops, its outcome Ok.
\<close>

definition Stop :: "TestcaseResult_t \<Rightarrow> BochscpuBackend_t \<Rightarrow> bool \<times> BochscpuBackend_t" where
  "Stop Res s = (True, s\<lparr>TestcaseResult' := Res\<rparr>)"

definition BreakpointDispatch :: "Ins \<Rightarrow> BochscpuBackend_t \<Rightarrow> bool \<times> BochscpuBackend_t" where
  "BreakpointDispatch I s =
     (case Breakpoints' s (Ins_Rip I) of
        None \<Rightarrow> (False, s)
      | Some Handler \<Rightarrow>
          (case Ins_Handler I of
             None \<Rightarrow> (False, s)
           | Some Res \<Rightarrow> Stop Res s))"

definition BeforeExecutionHook :: "Ins \<Rightarrow> BochscpuBackend_t \<Rightarrow> bool \<times> BochscpuBackend_t" where
  "BeforeExecutionHook I s =
     (let (stopped, s0) = BreakpointDispatch I s;
          s1 = RecordHit (Ins_Rip I) s0;
          s2 = s1\<lparr>RunStats' := (RunStats' s1)\<lparr>NumberInstructionsExecuted :=
                      NumberInstructionsExecuted (RunStats' s1) + 1\<rparr>\<rparr>
      in if InstructionLimit' s2 \<le> NumberInstructionsExecuted (RunStats' s2)
         then Stop Timeout_t s2 else (stopped, s2))"

definition ExceptionHook ::
  "(u32 \<Rightarrow> bool) \<Rightarrow> u32 \<Rightarrow> BochscpuBackend_t \<Rightarrow> bool \<times> BochscpuBackend_t" where
  "ExceptionHook Fatal Vector s =
     (if Fatal Vector then Stop (Crash_t Vector) s else (False, s))"

definition TlbControlHook :: "u64 \<Rightarrow> BochscpuBackend_t \<Rightarrow> bool \<times> BochscpuBackend_t" where
  "TlbControlHook NewCrValue s =
     (if NewCrValue \<noteq> InitialCr3' s then Stop Ok_t s else (False, s))"

definition execute ::
  "(u32 \<Rightarrow> bool) \<Rightarrow> Ins \<Rightarrow> BochscpuBackend_t \<Rightarrow> bool \<times> BochscpuBackend_t" where
  "execute Fatal I s =
     (case Ins_Event I of
        Retires \<Rightarrow> (False, s)
      | Exception Vector \<Rightarrow> ExceptionHook Fatal Vector s
      | TlbControl NewCrValue \<Rightarrow> TlbControlHook NewCrValue s)"

text \<open>
  What the guest does at an instruction, apart from the backend: a handler registered
  at its address stops the run there; it crashes or exits, the exception it raises
  being fatal or the page-table root it writes not the initial one.
\<close>

definition handler_stops :: "BochscpuBackend_t \<Rightarrow> Ins \<Rightarrow> bool" where
  "handler_stops s I = (Breakpoints' s (Ins_Rip I) \<noteq> None \<and> Ins_Handler I \<noteq> None)"

definition crashes_or_exits :: "(u32 \<Rightarrow> bool) \<Rightarrow> u64 \<Rightarrow> Ins \<Rightarrow> bool" where
  "crashes_or_exits Fatal InitialCr3 I =
     (case Ins_Event I of
        Retires \<Rightarrow> False
      | Exception Vector \<Rightarrow> Fatal Vector
      | TlbControl NewCrValue \<Rightarrow> NewCrValue \<noteq> InitialCr3)"

text \<open>
  The number of instructions the engine can still start before the counter meets the
  limit; a counter at its maximum wraps to 0 first.
\<close>

definition budget :: "BochscpuBackend_t \<Rightarrow> nat" where
  "budget s =
     (let n = NumberInstructionsExecuted (RunStats' s) in
      if n = - 1 then unat (InstructionLimit' s) + 1
      else unat (InstructionLimit' s) - unat n)"

text \<open>
  The engine's loop, from the instruction at position \<open>i\<close>: the before-execution hook,
  then the instruction with the hook of its event, until a hook has requested the stop.
  Every pass brings the counter nearer to the limit, so the loop ends.
\<close>

function bochscpu_cpu_run ::
  "(u32 \<Rightarrow> bool) \<Rightarrow> (nat \<Rightarrow> Ins) \<Rightarrow> nat \<Rightarrow> BochscpuBackend_t \<Rightarrow> BochscpuBackend_t" where
  "bochscpu_cpu_run Fatal Guest i s =
     (case BeforeExecutionHook (Guest i) s of
        (True, s1) \<Rightarrow> s1
      | (False, s1) \<Rightarrow>
          (case execute Fatal (Guest i) s1 of
             (True, s2) \<Rightarrow> s2
           | (False, s2) \<Rightarrow> bochscpu_cpu_run Fatal Guest (Suc i) s2))"
  by pat_completeness auto
termination
proof (relation "measure (\<lambda>(Fatal, Guest, i, s). budget s)")
  show "wf (measure (\<lambda>(Fatal, Guest, i, s). budget s))"
    by simp
next
  fix Fatal :: "u32 \<Rightarrow> bool" and Guest :: "nat \<Rightarrow> Ins" and i :: nat
    and s s1 s2 :: BochscpuBackend_t and x xa :: bool
  assume hook: "(x, s1) = BeforeExecutionHook (Guest i) s" "x = False"
    and exec: "(xa, s2) = execute Fatal (Guest i) s1" "xa = False"
  let ?n = "NumberInstructionsExecuted (RunStats' s)"
  let ?L = "InstructionLimit' s"
  have s1: "InstructionLimit' s1 = ?L \<and> NumberInstructionsExecuted (RunStats' s1) = ?n + 1
      \<and> ?n + 1 < ?L"
    using hook
    by (auto simp: BeforeExecutionHook_def BreakpointDispatch_def Let_def Stop_def RecordHit_def
             split: if_splits option.splits prod.splits)
  have s2: "RunStats' s2 = RunStats' s1 \<and> InstructionLimit' s2 = InstructionLimit' s1"
    using exec
    by (auto simp: execute_def ExceptionHook_def TlbControlHook_def Stop_def
             split: ins_event.splits if_splits)
  have lt: "?n + 1 < ?L" using s1 by simp
  then have ne: "?n + 1 \<noteq> - 1" by (metis word_order.extremum_strict)
  have "budget s2 < budget s"
  proof (cases "?n = - 1")
    case True
    then show ?thesis using s1 s2 by (simp add: budget_def Let_def)
  next
    case False
    then have nz: "1 + ?n \<noteq> 0" by (metis add.commute max_word_wrap)
    have u: "unat (?n + 1) = Suc (unat ?n)"
      using unatSuc [OF nz] by (simp add: add.commute)
    have "unat (?n + 1) < unat ?L" using lt by (simp add: word_less_nat_alt)
    then have "unat ?L - unat (?n + 1) < unat ?L - unat ?n" using u by arith
    then show ?thesis using s1 s2 False ne
      by (simp add: budget_def Let_def)
  qed
  then show "((Fatal, Guest, Suc i, s2), Fatal, Guest, i, s)
      \<in> measure (\<lambda>(Fatal, Guest, i, s). budget s)"
    by simp
qed

text \<open>
  Modelled from the spec: the body of \<^verbatim>\<open>Run\<close> is not in the header. It resets the
  coverage of the last run and the run statistics, stores the testcase buffer, and
  drives the engine until it halts; it returns the result recorded, or none when the
  engine could not be started: the handle \<^verbatim>\<open>Cpu_\<close> is null until the initialisation
  has succeeded.
\<close>

definition Run ::
  "(u32 \<Rightarrow> bool) \<Rightarrow> (nat \<Rightarrow> Ins) \<Rightarrow> u8 list \<Rightarrow> u64 \<Rightarrow> BochscpuBackend_t \<Rightarrow>
     TestcaseResult_t option \<times> BochscpuBackend_t" where
  "Run Fatal Guest Buffer BufferSize s =
     (let s1 = s\<lparr>LastNewCoverage' := {},
                 RunStats' := Reset (RunStats' s),
                 TestcaseBuffer' := Some Buffer,
                 TestcaseBufferSize' := BufferSize\<rparr>
      in case Cpu' s1 of
           None \<Rightarrow> (None, s1)
         | Some Cpu \<Rightarrow>
             (let s2 = bochscpu_cpu_run Fatal Guest 0 s1 in (Some (TestcaseResult' s2), s2)))"

text \<open>
  Modelled from the spec: \<^verbatim>\<open>Options_t\<close> is declared outside the header and the body
  of \<^verbatim>\<open>Initialize\<close> is not in it. The options hold the instruction limit, the trace
  type and the trace target. \<^verbatim>\<open>Initialize\<close> loads the snapshot from the parser of the
  memory image, whose result is the parameter \<open>Dump\<close>, none for a malformed image;
  it fails on a malformed image and on an invalid initial state, and leaves the backend
  as it was; else it creates the processor, applies the state to it and configures the
  limit and the trace from the options.
\<close>

record Options_t =
  Limit :: u64
  TraceType :: TraceType_t
  TraceTarget :: "nat option"

definition Initialize ::
  "(CpuState_t \<Rightarrow> bool) \<Rightarrow> (Gpa_t \<rightharpoonup> page) option \<Rightarrow> Options_t \<Rightarrow> CpuState_t \<Rightarrow>
     BochscpuBackend_t \<Rightarrow> bool \<times> BochscpuBackend_t" where
  "Initialize Valid Dump Opts CpuState s =
     (case Dump of
        None \<Rightarrow> (False, s)
      | Some Pages \<Rightarrow>
          if Valid CpuState
          then (True, s\<lparr>DmpParser' := Pages,
                        Cpu' := Some 0,
                        InstructionLimit' := Limit Opts,
                        TraceFile' := TraceTarget Opts,
                        TraceType' := TraceType Opts,
                        InitialCr3' := Cr3 CpuState\<rparr>)
          else (False, s))"

section \<open>Properties of the run statistics\<close>

text \<open>
  Claim C1, as amended. \<^verbatim>\<open>Reset\<close> sets the instruction counter and the memory-access
  counter to zero and leaves the count of unique addresses and the count of dirtied
  pages as they were: the four counters are all zero after it exactly when those two
  were zero before it.
\<close>

theorem C1_Reset_two_of_four:
  fixes s :: BochscpuRunStats_t
  shows "NumberInstructionsExecuted (Reset s) = 0 \<and> NumberMemoryAccesses (Reset s) = 0 \<and>
         AggregatedCodeCoverage (Reset s) = AggregatedCodeCoverage s \<and>
         DirtyGpas (Reset s) = DirtyGpas s \<and>
         ((NumberInstructionsExecuted (Reset s) = 0 \<and> NumberMemoryAccesses (Reset s) = 0 \<and>
           AggregatedCodeCoverage (Reset s) = 0 \<and> DirtyGpas (Reset s) = 0)
          = (AggregatedCodeCoverage s = 0 \<and> DirtyGpas s = 0))"
  by (simp add: Reset_def)

text \<open>
  Claim C1, as stated, fails: from the counters 5, 7, 3 and 2, \<^verbatim>\<open>Reset\<close> leaves the
  count of unique addresses at 3 and the count of dirtied pages at 2.
\<close>

theorem C1_Reset_keeps_two_counters_counterexample:
  "AggregatedCodeCoverage (Reset \<lparr>NumberInstructionsExecuted = 5, NumberMemoryAccesses = 7,
       AggregatedCodeCoverage = 3, DirtyGpas = 2\<rparr>) = 3
   \<and> DirtyGpas (Reset \<lparr>NumberInstructionsExecuted = 5, NumberMemoryAccesses = 7,
       AggregatedCodeCoverage = 3, DirtyGpas = 2\<rparr>) = 2"
  by (simp add: Reset_def)

text \<open>
  Claim C9. From every starting value, \<^verbatim>\<open>Reset\<close> sets
  \<^verbatim>\<open>NumberInstructionsExecuted\<close> and \<^verbatim>\<open>NumberMemoryAccesses\<close> to zero and leaves
  \<^verbatim>\<open>AggregatedCodeCoverage\<close> and \<^verbatim>\<open>DirtyGpas\<close> as they were.
\<close>

theorem C9_Reset_frame:
  "NumberInstructionsExecuted (Reset s) = 0 \<and> NumberMemoryAccesses (Reset s) = 0 \<and>
   AggregatedCodeCoverage (Reset s) = AggregatedCodeCoverage s \<and>
   DirtyGpas (Reset s) = DirtyGpas s"
  by (simp add: Reset_def)

lemma DirtyMemoryMb_small:
  assumes "DirtyGpas s < 4096"
  shows "DirtyMemoryMb s = 0"
  using assms by (simp add: DirtyMemoryMb_def Page_Size_def div_word_less)

lemma DirtyMemoryBytes_small:
  assumes "0 < DirtyGpas s" and "DirtyGpas s < 4096"
  shows "DirtyMemoryBytes s \<noteq> 0"
proof -
  have lt: "unat (DirtyGpas s) < 4096" using assms(2) by (simp add: word_less_nat_alt)
  have pos: "0 < unat (DirtyGpas s)" using assms(1) by (simp add: word_less_nat_alt)
  have "unat (DirtyGpas s) * unat (4096 :: u64) < 2 ^ LENGTH(64)" using lt by simp
  then have "unat (DirtyGpas s * 4096) = unat (DirtyGpas s) * unat (4096 :: u64)"
    by (simp only: unat_mult_lem)
  then have "unat (DirtyGpas s * 4096) \<noteq> 0" using pos by simp
  then show ?thesis by (auto simp: DirtyMemoryBytes_def Page_Size_def)
qed

text \<open>
  Claim C8. The fourth call of \<^verbatim>\<open>fmt::print\<close> in \<^verbatim>\<open>Print\<close> prints, as the bytes of
  dirty memory, the count of dirtied pages times the page size of 4096 and, as its
  megabytes, the count of dirtied pages divided by the page size. So from 1 to 4095
  dirtied pages the megabytes printed are 0 and the bytes printed are not.
\<close>

theorem C8_Print_dirty_memory:
  "Print OneMB s ! 3 =
     (''          Dirty pages: {} bytes ({} MB)\<newline>'',
      [DirtyGpas s * Page_Size, DirtyGpas s div Page_Size])
   \<and> Page_Size = 4096
   \<and> (0 < DirtyGpas s \<and> DirtyGpas s < 4096 \<longrightarrow>
        DirtyGpas s div Page_Size = 0 \<and> DirtyGpas s * Page_Size \<noteq> 0)"
  using DirtyMemoryMb_small [of s] DirtyMemoryBytes_small [of s]
  by (simp add: Print_def DirtyMemoryBytes_def DirtyMemoryMb_def Page_Size_def)

text \<open>With 256 dirtied pages, one megabyte of dirty memory, the call prints 1048576 bytes
  and 0 MB.\<close>

theorem C8_Print_dirty_memory_witness:
  "Print 1048576 \<lparr>NumberInstructionsExecuted = 10, NumberMemoryAccesses = 20,
       AggregatedCodeCoverage = 4, DirtyGpas = 256\<rparr> ! 3 =
     (''          Dirty pages: {} bytes ({} MB)\<newline>'', [1048576, 0])"
  using C8_Print_dirty_memory [of 1048576 "\<lparr>NumberInstructionsExecuted = 10,
       NumberMemoryAccesses = 20, AggregatedCodeCoverage = 4, DirtyGpas = 256\<rparr>"]
  by (simp add: Page_Size_def)

section \<open>Properties of the hash functions\<close>

text \<open>
  The two identity hashes return the raw 64-bit value of the address, and so do the
  hashes of \<^verbatim>\<open>AggregatedCodeCoverage_\<close> and of \<^verbatim>\<open>DirtyGpas_\<close>.
\<close>

lemma identity_hash_raw:
  "IdentityGpaHash Gpa = Gpa_U64 Gpa \<and> IdentityGvaHash Gva = Gva_U64 Gva \<and>
   AggregatedCodeCoverage_hash Gva = Gva_U64 Gva \<and> DirtyGpas_hash Gpa = Gpa_U64 Gpa"
  by (simp add: IdentityGpaHash_def IdentityGvaHash_def AggregatedCodeCoverage_hash_def
      DirtyGpas_hash_def)

section \<open>Properties of a new backend\<close>

text \<open>
  Claim C10. A newly constructed backend has the result Ok, the instruction limit 0,
  the trace type \<^verbatim>\<open>NoTrace\<close>, no trace file, a null processor handle, the initial
  page-table root 0 and no testcase buffer: a null pointer and the size 0.
\<close>

theorem C10_new_backend:
  "TestcaseResult' BochscpuBackend_t_ctor = Ok_t \<and>
   InstructionLimit' BochscpuBackend_t_ctor = 0 \<and>
   TraceType' BochscpuBackend_t_ctor = NoTrace \<and>
   TraceFile' BochscpuBackend_t_ctor = None \<and>
   Cpu' BochscpuBackend_t_ctor = None \<and>
   InitialCr3' BochscpuBackend_t_ctor = 0 \<and>
   TestcaseBuffer' BochscpuBackend_t_ctor = None \<and>
   TestcaseBufferSize' BochscpuBackend_t_ctor = 0"
  by (simp add: BochscpuBackend_t_ctor_def member_initializers_def)

section \<open>Properties of the memory manager\<close>

lemma Gpa_Align_idem: "Gpa_Align (Gpa_Align Gpa) = Gpa_Align Gpa"
  by (simp add: Gpa_Align_def)

lemma DirtyGpa_dirty:
  "Gpa_Align Gpa \<in> DirtyGpas' s \<Longrightarrow> DirtyGpa Gpa s = (True, s)"
  by (simp add: DirtyGpa_def)

lemma DirtyGpa_absent:
  "Gpa_Align Gpa \<notin> DirtyGpas' s \<Longrightarrow> DmpParser' s (Gpa_Align Gpa) = None \<Longrightarrow>
     DirtyGpa Gpa s = (False, s)"
  by (simp add: DirtyGpa_def GetPhysicalPage_def Gpa_Align_idem)

lemma DirtyGpa_new:
  "Gpa_Align Gpa \<notin> DirtyGpas' s \<Longrightarrow> DmpParser' s (Gpa_Align Gpa) = Some Content \<Longrightarrow>
     DirtyGpa Gpa s =
       (True, s\<lparr>DirtyGpas' := insert (Gpa_Align Gpa) (DirtyGpas' s),
                MutablePages := (MutablePages s)(Gpa_Align Gpa \<mapsto> Content)\<rparr>)"
  by (simp add: DirtyGpa_def GetPhysicalPage_def Gpa_Align_idem Let_def)

lemma DirtyGpa_cases:
  obtains (dirty) "Gpa_Align Gpa \<in> DirtyGpas' s" "DirtyGpa Gpa s = (True, s)"
  | (absent) "Gpa_Align Gpa \<notin> DirtyGpas' s" "DmpParser' s (Gpa_Align Gpa) = None"
      "DirtyGpa Gpa s = (False, s)"
  | (new) Content where "Gpa_Align Gpa \<notin> DirtyGpas' s"
      "DmpParser' s (Gpa_Align Gpa) = Some Content"
      "DirtyGpa Gpa s =
         (True, s\<lparr>DirtyGpas' := insert (Gpa_Align Gpa) (DirtyGpas' s),
                  MutablePages := (MutablePages s)(Gpa_Align Gpa \<mapsto> Content)\<rparr>)"
proof (cases "Gpa_Align Gpa \<in> DirtyGpas' s")
  case True
  then show ?thesis using dirty DirtyGpa_dirty by blast
next
  case False
  show ?thesis
  proof (cases "DmpParser' s (Gpa_Align Gpa)")
    case None
    then show ?thesis using absent False DirtyGpa_absent by blast
  next
    case (Some Content)
    then show ?thesis using new False DirtyGpa_new by blast
  qed
qed

lemma DirtyGpa_result:
  "fst (DirtyGpa Gpa s) =
     (Gpa_Align Gpa \<in> DirtyGpas' s \<or> DmpParser' s (Gpa_Align Gpa) \<noteq> None)"
  by (cases Gpa s rule: DirtyGpa_cases) simp_all

lemma DirtyGpa_set:
  "fst (DirtyGpa Gpa s) \<Longrightarrow>
     DirtyGpas' (snd (DirtyGpa Gpa s)) = insert (Gpa_Align Gpa) (DirtyGpas' s)"
  by (cases Gpa s rule: DirtyGpa_cases) (simp_all add: insert_absorb)

lemma DirtyGpa_fail_state:
  "\<not> fst (DirtyGpa Gpa s) \<Longrightarrow> snd (DirtyGpa Gpa s) = s"
  by (cases Gpa s rule: DirtyGpa_cases) simp_all

lemma DirtyGpa_calls_dirty:
  "\<forall>Gpa\<in>set Gpas. Gpa_Align Gpa \<in> DirtyGpas' s \<Longrightarrow>
     DirtyGpa_calls Gpas s = (replicate (length Gpas) True, s)"
  by (induction Gpas) (simp_all add: DirtyGpa_dirty)

lemma DirtyGpa_calls_absent:
  "\<forall>Gpa\<in>set Gpas. Gpa_Align Gpa \<notin> DirtyGpas' s \<and> DmpParser' s (Gpa_Align Gpa) = None \<Longrightarrow>
     DirtyGpa_calls Gpas s = (replicate (length Gpas) False, s)"
  by (induction Gpas) (simp_all add: DirtyGpa_absent)

lemma DirtyGpa_keeps:
  assumes "Page \<in> DirtyGpas' s"
  shows "Page \<in> DirtyGpas' (snd (DirtyGpa Gpa s)) \<and>
    MutablePages (snd (DirtyGpa Gpa s)) Page = MutablePages s Page"
proof (cases Gpa s rule: DirtyGpa_cases)
  case dirty
  then show ?thesis using assms by simp
next
  case absent
  then show ?thesis using assms by simp
next
  case (new Content)
  then have "Gpa_Align Gpa \<noteq> Page" using assms by auto
  then show ?thesis using new assms by simp
qed

lemma DirtyGpa_calls_Cons:
  "snd (DirtyGpa_calls (Gpa # Gpas) s) = snd (DirtyGpa_calls Gpas (snd (DirtyGpa Gpa s)))"
  by (simp add: split_def Let_def)

lemma DirtyGpa_calls_keeps:
  "Page \<in> DirtyGpas' s \<Longrightarrow>
     Page \<in> DirtyGpas' (snd (DirtyGpa_calls Gpas s)) \<and>
     MutablePages (snd (DirtyGpa_calls Gpas s)) Page = MutablePages s Page"
proof (induction Gpas arbitrary: s)
  case Nil
  then show ?case by simp
next
  case (Cons Gpa Gpas)
  have "Page \<in> DirtyGpas' (snd (DirtyGpa Gpa s)) \<and>
      MutablePages (snd (DirtyGpa Gpa s)) Page = MutablePages s Page"
    using Cons.prems by (rule DirtyGpa_keeps)
  then show ?case
    using Cons.IH [of "snd (DirtyGpa Gpa s)"] unfolding DirtyGpa_calls_Cons by simp
qed

text \<open>
  Claim C5. A call of \<^verbatim>\<open>DirtyGpa\<close> on an address whose page is dirty already succeeds
  and leaves the backend as it is, the mutable copy of the page included. Let the
  addresses of one or more calls lie in one page. The backend after all the calls is
  the backend after the first call. When the first call succeeds, all the calls
  succeed and the dirty set is the one before with the page inserted; where the dirty
  set held page-aligned entries only, it then holds exactly one entry for the page;
  and, whatever calls on whatever pages follow, a further call on the page is a no-op.
  Calls on whatever pages keep the mutable copy of a dirty page. The first call fails
  only when the snapshot does not have the page.
\<close>

theorem C5_DirtyGpa_idempotent:
  assumes "\<forall>a\<in>set (Gpa # Gpas). Gpa_Align a = Page"
  shows "snd (DirtyGpa_calls (Gpa # Gpas) s) = snd (DirtyGpa Gpa s)
    \<and> (fst (DirtyGpa Gpa s) \<longrightarrow>
         fst (DirtyGpa_calls (Gpa # Gpas) s) = replicate (Suc (length Gpas)) True \<and>
         DirtyGpas' (snd (DirtyGpa_calls (Gpa # Gpas) s)) = insert Page (DirtyGpas' s))
    \<and> (\<not> fst (DirtyGpa Gpa s) \<longrightarrow> DmpParser' s Page = None)
    \<and> (fst (DirtyGpa Gpa s) \<longrightarrow> (\<forall>e\<in>DirtyGpas' s. Gpa_Align e = e) \<longrightarrow>
         {e \<in> DirtyGpas' (snd (DirtyGpa_calls (Gpa # Gpas) s)). Gpa_Align e = Page} = {Page})
    \<and> (Page \<in> DirtyGpas' s \<longrightarrow> DirtyGpa Gpa s = (True, s))
    \<and> (fst (DirtyGpa Gpa s) \<longrightarrow>
         (\<forall>Others a. Gpa_Align a = Page \<longrightarrow>
            DirtyGpa a (snd (DirtyGpa_calls Others (snd (DirtyGpa Gpa s)))) =
              (True, snd (DirtyGpa_calls Others (snd (DirtyGpa Gpa s))))))
    \<and> (Page \<in> DirtyGpas' s \<longrightarrow>
         (\<forall>Others. Page \<in> DirtyGpas' (snd (DirtyGpa_calls Others s)) \<and>
            MutablePages (snd (DirtyGpa_calls Others s)) Page = MutablePages s Page))"
proof -
  have P: "Gpa_Align Gpa = Page" and Ps: "\<forall>a\<in>set Gpas. Gpa_Align a = Page"
    using assms by simp_all
  have PP: "Gpa_Align Page = Page" using P Gpa_Align_idem [of Gpa] by simp
  have noop: "Page \<in> DirtyGpas' s \<longrightarrow> DirtyGpa Gpa s = (True, s)"
    using P DirtyGpa_dirty [of Gpa s] by simp
  have keeps: "Page \<in> DirtyGpas' s \<longrightarrow>
      (\<forall>Others. Page \<in> DirtyGpas' (snd (DirtyGpa_calls Others s)) \<and>
         MutablePages (snd (DirtyGpa_calls Others s)) Page = MutablePages s Page)"
    using DirtyGpa_calls_keeps [of Page s] by blast
  have later: "fst (DirtyGpa Gpa s) \<longrightarrow>
      (\<forall>Others a. Gpa_Align a = Page \<longrightarrow>
         DirtyGpa a (snd (DirtyGpa_calls Others (snd (DirtyGpa Gpa s)))) =
           (True, snd (DirtyGpa_calls Others (snd (DirtyGpa Gpa s)))))"
  proof (intro impI allI)
    fix Others a
    assume ok: "fst (DirtyGpa Gpa s)" and a: "Gpa_Align a = Page"
    have "Page \<in> DirtyGpas' (snd (DirtyGpa Gpa s))"
      using DirtyGpa_set [OF ok] P by simp
    then have "Page \<in> DirtyGpas' (snd (DirtyGpa_calls Others (snd (DirtyGpa Gpa s))))"
      using DirtyGpa_calls_keeps by blast
    then show "DirtyGpa a (snd (DirtyGpa_calls Others (snd (DirtyGpa Gpa s)))) =
        (True, snd (DirtyGpa_calls Others (snd (DirtyGpa Gpa s))))"
      using a by (simp add: DirtyGpa_dirty)
  qed
  obtain r s1 where first: "DirtyGpa Gpa s = (r, s1)" by (cases "DirtyGpa Gpa s")
  have old: "snd (DirtyGpa_calls (Gpa # Gpas) s) = snd (DirtyGpa Gpa s)
    \<and> (fst (DirtyGpa Gpa s) \<longrightarrow>
         fst (DirtyGpa_calls (Gpa # Gpas) s) = replicate (Suc (length Gpas)) True \<and>
         DirtyGpas' (snd (DirtyGpa_calls (Gpa # Gpas) s)) = insert Page (DirtyGpas' s))
    \<and> (\<not> fst (DirtyGpa Gpa s) \<longrightarrow> DmpParser' s Page = None)
    \<and> (fst (DirtyGpa Gpa s) \<longrightarrow> (\<forall>e\<in>DirtyGpas' s. Gpa_Align e = e) \<longrightarrow>
         {e \<in> DirtyGpas' (snd (DirtyGpa_calls (Gpa # Gpas) s)). Gpa_Align e = Page} = {Page})"
  proof (cases r)
    case True
    then have ok: "fst (DirtyGpa Gpa s)" using first by simp
    have set1: "DirtyGpas' s1 = insert Page (DirtyGpas' s)"
      using DirtyGpa_set [OF ok] first P by simp
    then have "\<forall>a\<in>set Gpas. Gpa_Align a \<in> DirtyGpas' s1" using Ps by simp
    then have rest: "DirtyGpa_calls Gpas s1 = (replicate (length Gpas) True, s1)"
      by (rule DirtyGpa_calls_dirty)
    have calls: "DirtyGpa_calls (Gpa # Gpas) s = (replicate (Suc (length Gpas)) True, s1)"
      using first True rest by simp
    have one: "(\<forall>e\<in>DirtyGpas' s. Gpa_Align e = e) \<longrightarrow>
        {e \<in> DirtyGpas' s1. Gpa_Align e = Page} = {Page}"
      using set1 PP by auto
    show ?thesis using ok first calls set1 one by simp
  next
    case False
    then have bad: "\<not> fst (DirtyGpa Gpa s)" using first by simp
    then have absent: "Page \<notin> DirtyGpas' s \<and> DmpParser' s Page = None"
      using P by (simp add: DirtyGpa_result)
    have s1: "s1 = s" using DirtyGpa_fail_state [OF bad] first by simp
    have "\<forall>a\<in>set Gpas. Gpa_Align a \<notin> DirtyGpas' s \<and> DmpParser' s (Gpa_Align a) = None"
      using Ps absent by simp
    then have rest: "DirtyGpa_calls Gpas s = (replicate (length Gpas) False, s)"
      by (rule DirtyGpa_calls_absent)
    show ?thesis using bad first s1 rest absent by simp
  qed
  show ?thesis using old noop later keeps by blast
qed

text \<open>
  Three calls on the addresses 0x1000, 0x1008 and 0x1FFF of a page the snapshot has,
  with the page 0x3000 dirty before: all three succeed, the dirty set gains the one
  entry 0x1000 and the page gets its mutable copy once. Two calls on addresses of the
  page 0x2000, which the snapshot does not have, fail and change nothing. A call on
  0x3008, in the page that is dirty and whose copy the guest has written, changes
  nothing: the copy keeps the byte 5 where the snapshot has 4.
\<close>

theorem C5_DirtyGpa_idempotent_witness:
  "DirtyGpa_calls [Gpa_t 0x1000, Gpa_t 0x1008, Gpa_t 0x1FFF]
       (BochscpuBackend_t_ctor\<lparr>DmpParser' := [Gpa_t 0x1000 \<mapsto> [1, 2, 3], Gpa_t 0x3000 \<mapsto> [4]],
          DirtyGpas' := {Gpa_t 0x3000}, MutablePages := [Gpa_t 0x3000 \<mapsto> [5]]\<rparr>) =
     ([True, True, True],
      BochscpuBackend_t_ctor\<lparr>DmpParser' := [Gpa_t 0x1000 \<mapsto> [1, 2, 3], Gpa_t 0x3000 \<mapsto> [4]],
         DirtyGpas' := {Gpa_t 0x1000, Gpa_t 0x3000},
         MutablePages := [Gpa_t 0x3000 \<mapsto> [5], Gpa_t 0x1000 \<mapsto> [1, 2, 3]]\<rparr>)
   \<and> {e \<in> DirtyGpas' (snd (DirtyGpa_calls [Gpa_t 0x1000, Gpa_t 0x1008, Gpa_t 0x1FFF]
          (BochscpuBackend_t_ctor\<lparr>DmpParser' := [Gpa_t 0x1000 \<mapsto> [1, 2, 3], Gpa_t 0x3000 \<mapsto> [4]],
             DirtyGpas' := {Gpa_t 0x3000}, MutablePages := [Gpa_t 0x3000 \<mapsto> [5]]\<rparr>))).
        Gpa_Align e = Gpa_t 0x1000} = {Gpa_t 0x1000}
   \<and> DirtyGpa_calls [Gpa_t 0x2000, Gpa_t 0x2008]
       (BochscpuBackend_t_ctor\<lparr>DmpParser' := [Gpa_t 0x1000 \<mapsto> [1, 2, 3], Gpa_t 0x3000 \<mapsto> [4]],
          DirtyGpas' := {Gpa_t 0x3000}, MutablePages := [Gpa_t 0x3000 \<mapsto> [5]]\<rparr>) =
     ([False, False],
      BochscpuBackend_t_ctor\<lparr>DmpParser' := [Gpa_t 0x1000 \<mapsto> [1, 2, 3], Gpa_t 0x3000 \<mapsto> [4]],
         DirtyGpas' := {Gpa_t 0x3000}, MutablePages := [Gpa_t 0x3000 \<mapsto> [5]]\<rparr>)
   \<and> DirtyGpa (Gpa_t 0x3008)
       (BochscpuBackend_t_ctor\<lparr>DmpParser' := [Gpa_t 0x1000 \<mapsto> [1, 2, 3], Gpa_t 0x3000 \<mapsto> [4]],
          DirtyGpas' := {Gpa_t 0x3000}, MutablePages := [Gpa_t 0x3000 \<mapsto> [5]]\<rparr>) =
     (True,
      BochscpuBackend_t_ctor\<lparr>DmpParser' := [Gpa_t 0x1000 \<mapsto> [1, 2, 3], Gpa_t 0x3000 \<mapsto> [4]],
         DirtyGpas' := {Gpa_t 0x3000}, MutablePages := [Gpa_t 0x3000 \<mapsto> [5]]\<rparr>)
   \<and> MutablePages (snd (DirtyGpa_calls [Gpa_t 0x1000, Gpa_t 0x3008, Gpa_t 0x1008]
       (BochscpuBackend_t_ctor\<lparr>DmpParser' := [Gpa_t 0x1000 \<mapsto> [1, 2, 3], Gpa_t 0x3000 \<mapsto> [4]],
          DirtyGpas' := {Gpa_t 0x3000}, MutablePages := [Gpa_t 0x3000 \<mapsto> [5]]\<rparr>)))
       (Gpa_t 0x3000) = Some [5]"
proof -
  let ?s = "BochscpuBackend_t_ctor\<lparr>DmpParser' := [Gpa_t 0x1000 \<mapsto> [1, 2, 3], Gpa_t 0x3000 \<mapsto> [4]],
          DirtyGpas' := {Gpa_t 0x3000}, MutablePages := [Gpa_t 0x3000 \<mapsto> [5]]\<rparr>"
  have al: "Gpa_Align (Gpa_t 0x1000) = Gpa_t 0x1000" "Gpa_Align (Gpa_t 0x1008) = Gpa_t 0x1000"
    "Gpa_Align (Gpa_t 0x1FFF) = Gpa_t 0x1000" "Gpa_Align (Gpa_t 0x2000) = Gpa_t 0x2000"
    "Gpa_Align (Gpa_t 0x2008) = Gpa_t 0x2000" "Gpa_Align (Gpa_t 0x3008) = Gpa_t 0x3000"
    "Gpa_Align (Gpa_t 0x3000) = Gpa_t 0x3000"
    by (simp_all add: Gpa_Align_def Page_Size_def)
  have s: "DirtyGpas' ?s = {Gpa_t 0x3000}" "MutablePages ?s (Gpa_t 0x3000) = Some [5]"
    by simp_all
  have a: "DirtyGpa_calls [Gpa_t 0x1000, Gpa_t 0x1008, Gpa_t 0x1FFF] ?s =
     ([True, True, True],
      BochscpuBackend_t_ctor\<lparr>DmpParser' := [Gpa_t 0x1000 \<mapsto> [1, 2, 3], Gpa_t 0x3000 \<mapsto> [4]],
         DirtyGpas' := {Gpa_t 0x1000, Gpa_t 0x3000},
         MutablePages := [Gpa_t 0x3000 \<mapsto> [5], Gpa_t 0x1000 \<mapsto> [1, 2, 3]]\<rparr>)"
    by (simp add: DirtyGpa_def GetPhysicalPage_def al Let_def
        BochscpuBackend_t_ctor_def member_initializers_def)
  have b: "DirtyGpa_calls [Gpa_t 0x2000, Gpa_t 0x2008] ?s = ([False, False], ?s)"
    by (simp add: DirtyGpa_def GetPhysicalPage_def al Let_def
        BochscpuBackend_t_ctor_def member_initializers_def)
  have ok: "fst (DirtyGpa (Gpa_t 0x1000) ?s)"
    by (simp add: DirtyGpa_def GetPhysicalPage_def al Let_def
        BochscpuBackend_t_ctor_def member_initializers_def)
  have aligned: "\<forall>e\<in>DirtyGpas' ?s. Gpa_Align e = e"
    using al by simp
  have dirty: "Gpa_t 0x3000 \<in> DirtyGpas' ?s"
    by simp
  have page1: "\<forall>a\<in>set (Gpa_t 0x1000 # [Gpa_t 0x1008, Gpa_t 0x1FFF]). Gpa_Align a = Gpa_t 0x1000"
    using al by simp
  have page3: "\<forall>a\<in>set (Gpa_t 0x3008 # []). Gpa_Align a = Gpa_t 0x3000"
    using al by simp
  have c: "{e \<in> DirtyGpas' (snd (DirtyGpa_calls [Gpa_t 0x1000, Gpa_t 0x1008, Gpa_t 0x1FFF] ?s)).
        Gpa_Align e = Gpa_t 0x1000} = {Gpa_t 0x1000}"
    using C5_DirtyGpa_idempotent [OF page1, of ?s] ok aligned by blast
  have d: "DirtyGpa (Gpa_t 0x3008) ?s = (True, ?s)"
    using C5_DirtyGpa_idempotent [OF page3, of ?s] dirty by blast
  have "MutablePages (snd (DirtyGpa_calls [Gpa_t 0x1000, Gpa_t 0x3008, Gpa_t 0x1008] ?s))
      (Gpa_t 0x3000) = MutablePages ?s (Gpa_t 0x3000)"
    using C5_DirtyGpa_idempotent [OF page3, of ?s] dirty by blast
  then have e: "MutablePages (snd (DirtyGpa_calls [Gpa_t 0x1000, Gpa_t 0x3008, Gpa_t 0x1008] ?s))
      (Gpa_t 0x3000) = Some [5]"
    by simp
  show ?thesis
    by (intro conjI) (rule a b c d e)+
qed

text \<open>
  Claim C4. After a \<^verbatim>\<open>Restore\<close> that returned success the dirty set is empty, and
  every address of a page that was dirty before reads back, through
  \<^verbatim>\<open>PhysTranslate\<close>, the bytes the snapshot has there; the mutable copy of such a page
  holds the snapshot's content again, and the snapshot itself is as before.
\<close>

theorem C4_Restore:
  assumes "Restore Valid CpuState s = (True, s1)"
  shows "DirtyGpas' s1 = {}
    \<and> (\<forall>Gpa. Gpa_Align Gpa \<in> DirtyGpas' s \<longrightarrow>
          PhysTranslate s1 Gpa = map_option (drop (Gpa_Offset Gpa)) (GetPhysicalPage s Gpa))
    \<and> (\<forall>Page\<in>DirtyGpas' s. MutablePages s1 Page = GetPhysicalPage s Page)
    \<and> DmpParser' s1 = DmpParser' s"
  using assms
  by (auto simp: Restore_def Let_def PhysTranslate_def GetPhysicalPage_def Gpa_Align_idem
           split: if_splits)

text \<open>
  The page 0x1000 is dirty and its mutable copy differs from the snapshot in two bytes:
  the address 0x1001 reads 9, 9 before the restore and 2, 3, as in the snapshot, after.
\<close>

theorem C4_Restore_witness:
  "PhysTranslate
     (BochscpuBackend_t_ctor\<lparr>DmpParser' := [Gpa_t 0x1000 \<mapsto> [1, 2, 3]],
        DirtyGpas' := {Gpa_t 0x1000}, MutablePages := [Gpa_t 0x1000 \<mapsto> [1, 9, 9]]\<rparr>)
     (Gpa_t 0x1001) = Some [9, 9]
   \<and> fst (Restore (\<lambda>CpuState. True) \<lparr>Regs = (\<lambda>Reg. 0), Cr3 = 0x1AB000\<rparr>
       (BochscpuBackend_t_ctor\<lparr>DmpParser' := [Gpa_t 0x1000 \<mapsto> [1, 2, 3]],
          DirtyGpas' := {Gpa_t 0x1000}, MutablePages := [Gpa_t 0x1000 \<mapsto> [1, 9, 9]]\<rparr>))
   \<and> DirtyGpas' (snd (Restore (\<lambda>CpuState. True) \<lparr>Regs = (\<lambda>Reg. 0), Cr3 = 0x1AB000\<rparr>
       (BochscpuBackend_t_ctor\<lparr>DmpParser' := [Gpa_t 0x1000 \<mapsto> [1, 2, 3]],
          DirtyGpas' := {Gpa_t 0x1000}, MutablePages := [Gpa_t 0x1000 \<mapsto> [1, 9, 9]]\<rparr>))) = {}
   \<and> PhysTranslate
       (snd (Restore (\<lambda>CpuState. True) \<lparr>Regs = (\<lambda>Reg. 0), Cr3 = 0x1AB000\<rparr>
         (BochscpuBackend_t_ctor\<lparr>DmpParser' := [Gpa_t 0x1000 \<mapsto> [1, 2, 3]],
            DirtyGpas' := {Gpa_t 0x1000}, MutablePages := [Gpa_t 0x1000 \<mapsto> [1, 9, 9]]\<rparr>)))
       (Gpa_t 0x1001) = Some [2, 3]"
  using C4_Restore [of "\<lambda>CpuState. True" "\<lparr>Regs = (\<lambda>Reg. 0), Cr3 = 0x1AB000\<rparr>"
      "BochscpuBackend_t_ctor\<lparr>DmpParser' := [Gpa_t 0x1000 \<mapsto> [1, 2, 3]],
          DirtyGpas' := {Gpa_t 0x1000}, MutablePages := [Gpa_t 0x1000 \<mapsto> [1, 9, 9]]\<rparr>"
      "snd (Restore (\<lambda>CpuState. True) \<lparr>Regs = (\<lambda>Reg. 0), Cr3 = 0x1AB000\<rparr>
         (BochscpuBackend_t_ctor\<lparr>DmpParser' := [Gpa_t 0x1000 \<mapsto> [1, 2, 3]],
            DirtyGpas' := {Gpa_t 0x1000}, MutablePages := [Gpa_t 0x1000 \<mapsto> [1, 9, 9]]\<rparr>))"]
  by (simp add: Restore_def PhysTranslate_def GetPhysicalPage_def Gpa_Align_def Gpa_Offset_def
      Page_Size_def BochscpuBackend_t_ctor_def member_initializers_def Let_def)

section \<open>Properties of the hooks and of the engine's loop\<close>

declare bochscpu_cpu_run.simps [simp del]

lemma execute_stops:
  "fst (execute Fatal I s) = crashes_or_exits Fatal (InitialCr3' s) I"
  by (simp add: execute_def crashes_or_exits_def ExceptionHook_def TlbControlHook_def Stop_def
           split: ins_event.splits)

lemma execute_frame:
  "RunStats' (snd (execute Fatal I s)) = RunStats' s \<and>
   InstructionLimit' (snd (execute Fatal I s)) = InstructionLimit' s \<and>
   InitialCr3' (snd (execute Fatal I s)) = InitialCr3' s \<and>
   Breakpoints' (snd (execute Fatal I s)) = Breakpoints' s \<and>
   AggregatedCodeCoverage' (snd (execute Fatal I s)) = AggregatedCodeCoverage' s \<and>
   LastNewCoverage' (snd (execute Fatal I s)) = LastNewCoverage' s"
  by (simp add: execute_def ExceptionHook_def TlbControlHook_def Stop_def
           split: ins_event.splits)

lemma execute_result:
  "crashes_or_exits Fatal (InitialCr3' s) I \<Longrightarrow>
     TestcaseResult' (snd (execute Fatal I s)) =
       (case Ins_Event I of Exception Vector \<Rightarrow> Crash_t Vector | _ \<Rightarrow> Ok_t)"
  by (auto simp: execute_def crashes_or_exits_def ExceptionHook_def TlbControlHook_def Stop_def
           split: ins_event.splits)

lemma execute_stale:
  "execute Fatal I (s\<lparr>TestcaseResult' := Stale\<rparr>) =
     (if fst (execute Fatal I s) then execute Fatal I s
      else (False, (snd (execute Fatal I s))\<lparr>TestcaseResult' := Stale\<rparr>))"
  by (simp add: execute_def ExceptionHook_def TlbControlHook_def Stop_def
           split: ins_event.splits)

lemma BreakpointDispatch_stops:
  "fst (BreakpointDispatch I s) = handler_stops s I"
  by (simp add: BreakpointDispatch_def handler_stops_def Stop_def split: option.splits)

lemma BeforeExecutionHook_stops:
  "fst (BeforeExecutionHook I s) =
     (handler_stops s I \<or>
      InstructionLimit' s \<le> NumberInstructionsExecuted (RunStats' s) + 1)"
  by (simp add: BeforeExecutionHook_def BreakpointDispatch_def handler_stops_def Let_def
        Stop_def RecordHit_def split: option.splits)

lemma BeforeExecutionHook_frame:
  "InstructionLimit' (snd (BeforeExecutionHook I s)) = InstructionLimit' s \<and>
   InitialCr3' (snd (BeforeExecutionHook I s)) = InitialCr3' s \<and>
   Breakpoints' (snd (BeforeExecutionHook I s)) = Breakpoints' s \<and>
   NumberInstructionsExecuted (RunStats' (snd (BeforeExecutionHook I s))) =
     NumberInstructionsExecuted (RunStats' s) + 1"
  by (simp add: BeforeExecutionHook_def BreakpointDispatch_def Let_def Stop_def RecordHit_def
           split: option.splits)

lemma BeforeExecutionHook_result:
  "TestcaseResult' (snd (BeforeExecutionHook I s)) =
     (if InstructionLimit' s \<le> NumberInstructionsExecuted (RunStats' s) + 1 then Timeout_t
      else if handler_stops s I then the (Ins_Handler I)
      else TestcaseResult' s)"
  by (auto simp: BeforeExecutionHook_def BreakpointDispatch_def handler_stops_def Let_def
        Stop_def RecordHit_def split: option.splits)

lemma BeforeExecutionHook_stale:
  "BeforeExecutionHook I (s\<lparr>TestcaseResult' := Stale\<rparr>) =
     (if fst (BeforeExecutionHook I s) then BeforeExecutionHook I s
      else (False, (snd (BeforeExecutionHook I s))\<lparr>TestcaseResult' := Stale\<rparr>))"
  by (simp add: BeforeExecutionHook_def BreakpointDispatch_def Let_def
        Stop_def RecordHit_def split: option.splits)

lemma BeforeExecutionHook_coverage:
  "LastNewCoverage' s \<inter> A = {} \<Longrightarrow> AggregatedCodeCoverage' s = A \<union> LastNewCoverage' s \<Longrightarrow>
   LastNewCoverage' (snd (BeforeExecutionHook I s)) \<inter> A = {} \<and>
   AggregatedCodeCoverage' (snd (BeforeExecutionHook I s)) =
     A \<union> LastNewCoverage' (snd (BeforeExecutionHook I s))"
  by (auto simp: BeforeExecutionHook_def BreakpointDispatch_def Let_def Stop_def RecordHit_def
           split: option.splits)

lemma bochscpu_cpu_run_unfold:
  "bochscpu_cpu_run Fatal Guest i s =
     (let h = BeforeExecutionHook (Guest i) s in
      if fst h then snd h
      else let e = execute Fatal (Guest i) (snd h) in
           if fst e then snd e else bochscpu_cpu_run Fatal Guest (Suc i) (snd e))"
  by (subst bochscpu_cpu_run.simps) (simp add: Let_def split: prod.splits bool.splits)

lemma bochscpu_cpu_run_induct [case_names step]:
  assumes "\<And>i s.
     (\<not> fst (BeforeExecutionHook (Guest i) s) \<Longrightarrow>
      \<not> fst (execute Fatal (Guest i) (snd (BeforeExecutionHook (Guest i) s))) \<Longrightarrow>
      P (Suc i) (snd (execute Fatal (Guest i) (snd (BeforeExecutionHook (Guest i) s)))))
     \<Longrightarrow> P i s"
  shows "P i s"
  using assms
proof (induction Fatal Guest i s rule: bochscpu_cpu_run.induct)
  case (1 Fatal Guest i s)
  show ?case
  proof (rule "1.prems")
    assume a: "\<not> fst (BeforeExecutionHook (Guest i) s)"
      and b: "\<not> fst (execute Fatal (Guest i) (snd (BeforeExecutionHook (Guest i) s)))"
    show "P (Suc i) (snd (execute Fatal (Guest i) (snd (BeforeExecutionHook (Guest i) s))))"
      by (rule "1.IH" [OF prod.collapse _ prod.collapse]) (use a b "1.prems" in simp_all)
  qed
qed

lemma run_coverage:
  "LastNewCoverage' s \<inter> A = {} \<Longrightarrow> AggregatedCodeCoverage' s = A \<union> LastNewCoverage' s \<Longrightarrow>
   LastNewCoverage' (bochscpu_cpu_run Fatal Guest i s) \<inter> A = {} \<and>
   AggregatedCodeCoverage' (bochscpu_cpu_run Fatal Guest i s) =
     A \<union> LastNewCoverage' (bochscpu_cpu_run Fatal Guest i s)"
proof (induction i s rule: bochscpu_cpu_run_induct [where Fatal = Fatal and Guest = Guest])
  case (step i s)
  let ?h = "BeforeExecutionHook (Guest i) s"
  let ?e = "execute Fatal (Guest i) (snd ?h)"
  have h: "LastNewCoverage' (snd ?h) \<inter> A = {} \<and>
      AggregatedCodeCoverage' (snd ?h) = A \<union> LastNewCoverage' (snd ?h)"
    using step.prems by (rule BeforeExecutionHook_coverage)
  then have e: "LastNewCoverage' (snd ?e) \<inter> A = {} \<and>
      AggregatedCodeCoverage' (snd ?e) = A \<union> LastNewCoverage' (snd ?e)"
    by (simp add: execute_frame)
  show ?case
  proof (cases "fst ?h")
    case True
    then show ?thesis using h by (subst (1 2 3) bochscpu_cpu_run_unfold) (simp add: Let_def)
  next
    case False
    show ?thesis
    proof (cases "fst ?e")
      case True
      then show ?thesis using False e
        by (subst (1 2 3) bochscpu_cpu_run_unfold) (simp add: Let_def)
    next
      case stay: False
      have run: "bochscpu_cpu_run Fatal Guest i s = bochscpu_cpu_run Fatal Guest (Suc i) (snd ?e)"
        using False stay by (subst bochscpu_cpu_run_unfold) (simp add: Let_def)
      show ?thesis using step.IH [OF False stay] e by (simp add: run)
    qed
  qed
qed

lemma Run_started:
  assumes "Cpu' s \<noteq> None"
  shows "Run Fatal Guest Buffer BufferSize s =
    (Some (TestcaseResult' (bochscpu_cpu_run Fatal Guest 0
        (s\<lparr>LastNewCoverage' := {}, RunStats' := Reset (RunStats' s),
           TestcaseBuffer' := Some Buffer, TestcaseBufferSize' := BufferSize\<rparr>))),
     bochscpu_cpu_run Fatal Guest 0
        (s\<lparr>LastNewCoverage' := {}, RunStats' := Reset (RunStats' s),
           TestcaseBuffer' := Some Buffer, TestcaseBufferSize' := BufferSize\<rparr>))"
  using assms by (auto simp: Run_def Let_def)

lemma hook_passes:
  assumes "\<not> handler_stops s I"
    and "Suc (unat (NumberInstructionsExecuted (RunStats' s))) < unat (InstructionLimit' s)"
  shows "\<not> fst (BeforeExecutionHook I s)"
    and "unat (NumberInstructionsExecuted (RunStats' (snd (BeforeExecutionHook I s)))) =
       Suc (unat (NumberInstructionsExecuted (RunStats' s)))"
proof -
  let ?n = "NumberInstructionsExecuted (RunStats' s)"
  have "unat (InstructionLimit' s) < 2 ^ LENGTH(64)" by (rule unsigned_less)
  then have "unat ?n + unat (1 :: u64) < 2 ^ LENGTH(64)" using assms(2) by simp
  then have u: "unat (?n + 1) = Suc (unat ?n)" by (simp add: unat_word_ariths(1))
  then have "?n + 1 < InstructionLimit' s" using assms(2) by (simp add: word_less_nat_alt)
  then show "\<not> fst (BeforeExecutionHook I s)"
    using assms(1) by (simp add: BeforeExecutionHook_stops not_le)
  show "unat (NumberInstructionsExecuted (RunStats' (snd (BeforeExecutionHook I s)))) =
       Suc (unat ?n)"
    using u by (simp add: BeforeExecutionHook_frame)
qed

lemma hook_handler_stops:
  assumes "handler_stops s I"
    and "Suc (unat (NumberInstructionsExecuted (RunStats' s))) < unat (InstructionLimit' s)"
  shows "fst (BeforeExecutionHook I s)"
    and "Some (TestcaseResult' (snd (BeforeExecutionHook I s))) = Ins_Handler I"
proof -
  let ?n = "NumberInstructionsExecuted (RunStats' s)"
  have "unat (InstructionLimit' s) < 2 ^ LENGTH(64)" by (rule unsigned_less)
  then have "unat ?n + unat (1 :: u64) < 2 ^ LENGTH(64)" using assms(2) by simp
  then have u: "unat (?n + 1) = Suc (unat ?n)" by (simp add: unat_word_ariths(1))
  then have lt: "?n + 1 < InstructionLimit' s" using assms(2) by (simp add: word_less_nat_alt)
  show "fst (BeforeExecutionHook I s)"
    using assms(1) by (simp add: BeforeExecutionHook_stops)
  show "Some (TestcaseResult' (snd (BeforeExecutionHook I s))) = Ins_Handler I"
    using assms(1) lt by (auto simp: BeforeExecutionHook_result not_le handler_stops_def)
qed

lemma handler_stops_frame:
  "Breakpoints' t = Breakpoints' s \<Longrightarrow> handler_stops t I = handler_stops s I"
  by (simp add: handler_stops_def)

lemma run_stops_at:
  assumes "unat (NumberInstructionsExecuted (RunStats' s)) + k + 1 < unat (InstructionLimit' s)"
    and "\<forall>j<k. \<not> handler_stops s (Guest (i + j)) \<and>
           \<not> crashes_or_exits Fatal (InitialCr3' s) (Guest (i + j))"
  shows "(handler_stops s (Guest (i + k)) \<longrightarrow>
            Some (TestcaseResult' (bochscpu_cpu_run Fatal Guest i s)) = Ins_Handler (Guest (i + k)))
       \<and> (\<not> handler_stops s (Guest (i + k)) \<longrightarrow>
            crashes_or_exits Fatal (InitialCr3' s) (Guest (i + k)) \<longrightarrow>
            TestcaseResult' (bochscpu_cpu_run Fatal Guest i s) =
              (case Ins_Event (Guest (i + k)) of
                 Exception Vector \<Rightarrow> Crash_t Vector | _ \<Rightarrow> Ok_t))"
  using assms
proof (induction k arbitrary: i s)
  case 0
  let ?h = "BeforeExecutionHook (Guest i) s"
  let ?e = "execute Fatal (Guest i) (snd ?h)"
  have lim: "Suc (unat (NumberInstructionsExecuted (RunStats' s))) < unat (InstructionLimit' s)"
    using "0.prems"(1) by simp
  show ?case
  proof (cases "handler_stops s (Guest i)")
    case True
    have "bochscpu_cpu_run Fatal Guest i s = snd ?h"
      using hook_handler_stops(1) [OF True lim]
      by (subst bochscpu_cpu_run_unfold) (simp add: Let_def)
    then show ?thesis using True hook_handler_stops(2) [OF True lim] by simp
  next
    case False
    have pass: "\<not> fst ?h" using hook_passes(1) [OF False lim] .
    have cr3: "InitialCr3' (snd ?h) = InitialCr3' s" by (simp add: BeforeExecutionHook_frame)
    show ?thesis
    proof (cases "crashes_or_exits Fatal (InitialCr3' s) (Guest i)")
      case True
      then have stop: "fst ?e" by (simp add: execute_stops cr3)
      have "bochscpu_cpu_run Fatal Guest i s = snd ?e"
        using pass stop by (subst bochscpu_cpu_run_unfold) (simp add: Let_def)
      then show ?thesis using False True execute_result [of Fatal "snd ?h" "Guest i"]
        by (simp add: cr3)
    next
      case no: False
      then show ?thesis using False by simp
    qed
  qed
next
  case (Suc k)
  let ?h = "BeforeExecutionHook (Guest i) s"
  let ?e = "execute Fatal (Guest i) (snd ?h)"
  have lim: "Suc (unat (NumberInstructionsExecuted (RunStats' s))) < unat (InstructionLimit' s)"
    using Suc.prems(1) by simp
  have quiet: "\<not> handler_stops s (Guest i)"
    "\<not> crashes_or_exits Fatal (InitialCr3' s) (Guest i)"
    using Suc.prems(2) [rule_format, of 0] by simp_all
  have pass: "\<not> fst ?h" using hook_passes(1) [OF quiet(1) lim] .
  have cnt: "unat (NumberInstructionsExecuted (RunStats' (snd ?e))) =
      Suc (unat (NumberInstructionsExecuted (RunStats' s)))"
    using hook_passes(2) [OF quiet(1) lim] by (simp add: execute_frame)
  have fr: "InstructionLimit' (snd ?e) = InstructionLimit' s"
    "InitialCr3' (snd ?e) = InitialCr3' s" "Breakpoints' (snd ?e) = Breakpoints' s"
    by (simp_all add: execute_frame BeforeExecutionHook_frame)
  have stay: "\<not> fst ?e"
    using quiet(2) by (simp add: execute_stops BeforeExecutionHook_frame)
  have run: "bochscpu_cpu_run Fatal Guest i s = bochscpu_cpu_run Fatal Guest (Suc i) (snd ?e)"
    using pass stay by (subst bochscpu_cpu_run_unfold) (simp add: Let_def)
  have p1: "unat (NumberInstructionsExecuted (RunStats' (snd ?e))) + k + 1
      < unat (InstructionLimit' (snd ?e))"
    using Suc.prems(1) cnt fr(1) by simp
  have p2: "\<forall>j<k. \<not> handler_stops (snd ?e) (Guest (Suc i + j)) \<and>
      \<not> crashes_or_exits Fatal (InitialCr3' (snd ?e)) (Guest (Suc i + j))"
  proof (intro allI impI)
    fix j assume "j < k"
    then show "\<not> handler_stops (snd ?e) (Guest (Suc i + j)) \<and>
      \<not> crashes_or_exits Fatal (InitialCr3' (snd ?e)) (Guest (Suc i + j))"
      using Suc.prems(2) [rule_format, of "Suc j"]
      by (simp add: fr handler_stops_frame [OF fr(3)])
  qed
  show ?case
    using Suc.IH [OF p1 p2]
    by (simp add: run fr handler_stops_frame [OF fr(3)])
qed

lemma run_never_stops:
  "\<forall>j. \<not> handler_stops s (Guest (i + j)) \<and>
        \<not> crashes_or_exits Fatal (InitialCr3' s) (Guest (i + j)) \<Longrightarrow>
   TestcaseResult' (bochscpu_cpu_run Fatal Guest i s) = Timeout_t"
proof (induction i s rule: bochscpu_cpu_run_induct [where Fatal = Fatal and Guest = Guest])
  case (step i s)
  let ?h = "BeforeExecutionHook (Guest i) s"
  let ?e = "execute Fatal (Guest i) (snd ?h)"
  have quiet: "\<not> handler_stops s (Guest i)"
    "\<not> crashes_or_exits Fatal (InitialCr3' s) (Guest i)"
    using step.prems [rule_format, of 0] by simp_all
  have fr: "InitialCr3' (snd ?e) = InitialCr3' s" "Breakpoints' (snd ?e) = Breakpoints' s"
    by (simp_all add: execute_frame BeforeExecutionHook_frame)
  have stay: "\<not> fst ?e"
    using quiet(2) by (simp add: execute_stops BeforeExecutionHook_frame)
  show ?case
  proof (cases "fst ?h")
    case True
    then have "InstructionLimit' s \<le> NumberInstructionsExecuted (RunStats' s) + 1"
      using quiet(1) by (simp add: BeforeExecutionHook_stops)
    then have "TestcaseResult' (snd ?h) = Timeout_t"
      by (simp add: BeforeExecutionHook_result)
    then show ?thesis using True by (subst bochscpu_cpu_run_unfold) (simp add: Let_def)
  next
    case False
    have run: "bochscpu_cpu_run Fatal Guest i s = bochscpu_cpu_run Fatal Guest (Suc i) (snd ?e)"
      using False stay by (subst bochscpu_cpu_run_unfold) (simp add: Let_def)
    have "\<forall>j. \<not> handler_stops (snd ?e) (Guest (Suc i + j)) \<and>
        \<not> crashes_or_exits Fatal (InitialCr3' (snd ?e)) (Guest (Suc i + j))"
    proof
      fix j
      show "\<not> handler_stops (snd ?e) (Guest (Suc i + j)) \<and>
        \<not> crashes_or_exits Fatal (InitialCr3' (snd ?e)) (Guest (Suc i + j))"
        using step.prems [rule_format, of "Suc j"]
        by (simp add: fr handler_stops_frame [OF fr(2)])
    qed
    then show ?thesis using step.IH [OF False stay] by (simp add: run)
  qed
qed

lemma run_stale:
  "bochscpu_cpu_run Fatal Guest i (s\<lparr>TestcaseResult' := Stale\<rparr>) =
     bochscpu_cpu_run Fatal Guest i s"
proof (induction i s rule: bochscpu_cpu_run_induct [where Fatal = Fatal and Guest = Guest])
  case (step i s)
  let ?h = "BeforeExecutionHook (Guest i) s"
  let ?e = "execute Fatal (Guest i) (snd ?h)"
  show ?case
  proof (cases "fst ?h")
    case True
    then show ?thesis
      by (subst (1 2) bochscpu_cpu_run_unfold) (simp add: Let_def BeforeExecutionHook_stale)
  next
    case False
    show ?thesis
    proof (cases "fst ?e")
      case True
      then show ?thesis using False
        by (subst (1 2) bochscpu_cpu_run_unfold)
           (simp add: Let_def BeforeExecutionHook_stale execute_stale)
    next
      case stay: False
      then show ?thesis using False step.IH [OF False stay]
        by (subst (1 2) bochscpu_cpu_run_unfold)
           (simp add: Let_def BeforeExecutionHook_stale execute_stale)
    qed
  qed
qed

lemma Run_None:
  "(fst (Run Fatal Guest Buffer BufferSize s) = None) = (Cpu' s = None)"
  by (simp add: Run_def Let_def split: option.splits)

lemma Run_stale:
  "fst (Run Fatal Guest Buffer BufferSize (s\<lparr>TestcaseResult' := Stale\<rparr>)) =
     fst (Run Fatal Guest Buffer BufferSize s)"
proof (cases "Cpu' s")
  case None
  then show ?thesis by (simp add: Run_def Let_def)
next
  case (Some Cpu)
  have "s\<lparr>TestcaseResult' := Stale, LastNewCoverage' := {}, RunStats' := Reset (RunStats' s),
          TestcaseBuffer' := Some Buffer, TestcaseBufferSize' := BufferSize\<rparr> =
        s\<lparr>LastNewCoverage' := {}, RunStats' := Reset (RunStats' s),
          TestcaseBuffer' := Some Buffer, TestcaseBufferSize' := BufferSize,
          TestcaseResult' := Stale\<rparr>"
    by simp
  then have "bochscpu_cpu_run Fatal Guest 0
        (s\<lparr>TestcaseResult' := Stale, LastNewCoverage' := {}, RunStats' := Reset (RunStats' s),
          TestcaseBuffer' := Some Buffer, TestcaseBufferSize' := BufferSize\<rparr>) =
      bochscpu_cpu_run Fatal Guest 0
        (s\<lparr>LastNewCoverage' := {}, RunStats' := Reset (RunStats' s),
          TestcaseBuffer' := Some Buffer, TestcaseBufferSize' := BufferSize\<rparr>)"
    by (simp only: run_stale)
  then show ?thesis
    using Some by (simp add: Run_def Let_def)
qed

lemma Run_stops_at:
  assumes "Cpu' s \<noteq> None" and "Suc k < unat (InstructionLimit' s)"
    and "\<forall>j<k. \<not> handler_stops s (Guest j) \<and>
           \<not> crashes_or_exits Fatal (InitialCr3' s) (Guest j)"
  shows "(handler_stops s (Guest k) \<longrightarrow>
            fst (Run Fatal Guest Buffer BufferSize s) = Ins_Handler (Guest k))
       \<and> (\<not> handler_stops s (Guest k) \<longrightarrow>
            crashes_or_exits Fatal (InitialCr3' s) (Guest k) \<longrightarrow>
            fst (Run Fatal Guest Buffer BufferSize s) =
              Some (case Ins_Event (Guest k) of
                      Exception Vector \<Rightarrow> Crash_t Vector | _ \<Rightarrow> Ok_t))"
proof -
  let ?s1 = "s\<lparr>LastNewCoverage' := {}, RunStats' := Reset (RunStats' s),
               TestcaseBuffer' := Some Buffer, TestcaseBufferSize' := BufferSize\<rparr>"
  have n0: "unat (NumberInstructionsExecuted (RunStats' ?s1)) = 0"
    by (simp add: Reset_def)
  have fr: "InstructionLimit' ?s1 = InstructionLimit' s" "InitialCr3' ?s1 = InitialCr3' s"
    "Breakpoints' ?s1 = Breakpoints' s"
    by simp_all
  have p1: "unat (NumberInstructionsExecuted (RunStats' ?s1)) + k + 1 < unat (InstructionLimit' ?s1)"
    using assms(2) unfolding n0 fr by simp
  have p2: "\<forall>j<k. \<not> handler_stops ?s1 (Guest (0 + j)) \<and>
           \<not> crashes_or_exits Fatal (InitialCr3' ?s1) (Guest (0 + j))"
    using assms(3) unfolding fr handler_stops_frame [OF fr(3)] by simp
  show ?thesis
    using run_stops_at [OF p1 p2]
    unfolding fr handler_stops_frame [OF fr(3)] Run_started [OF assms(1)]
    by simp
qed

lemma Run_never_stops:
  assumes "Cpu' s \<noteq> None"
    and "\<forall>j. \<not> handler_stops s (Guest j) \<and> \<not> crashes_or_exits Fatal (InitialCr3' s) (Guest j)"
  shows "fst (Run Fatal Guest Buffer BufferSize s) = Some Timeout_t"
proof -
  let ?s1 = "s\<lparr>LastNewCoverage' := {}, RunStats' := Reset (RunStats' s),
               TestcaseBuffer' := Some Buffer, TestcaseBufferSize' := BufferSize\<rparr>"
  have fr: "InitialCr3' ?s1 = InitialCr3' s" "Breakpoints' ?s1 = Breakpoints' s"
    by simp_all
  have "\<forall>j. \<not> handler_stops ?s1 (Guest (0 + j)) \<and>
      \<not> crashes_or_exits Fatal (InitialCr3' ?s1) (Guest (0 + j))"
    using assms(2) unfolding fr handler_stops_frame [OF fr(2)] by simp
  then show ?thesis
    using run_never_stops [of ?s1 Guest 0 Fatal]
    unfolding Run_started [OF assms(1)] by simp
qed

lemma Initialize_Cpu:
  "Cpu' (snd (Initialize Valid Dump Opts CpuState s)) =
     (if fst (Initialize Valid Dump Opts CpuState s) then Some 0 else Cpu' s)"
  by (simp add: Initialize_def split: option.splits)

text \<open>
  Claim C7. \<^verbatim>\<open>Run\<close> returns no result exactly when the engine could not be started,
  the processor handle being null: so it is on a new backend whose initialisation has
  failed, and not after an initialisation that has succeeded. With the engine started
  it returns a result, which is Ok, a crash or Timeout, and which this run has set: the
  result an earlier run has left in the backend has no part in it. Every fault of the
  run is captured and classified. Let the guest reach an instruction within the limit,
  no handler having stopped the run and no instruction having crashed or exited before:
  when a handler stops the run there, the result is the one the handler gives; else
  when the instruction raises a fatal exception, the result is the crash with its
  vector; else when it leaves the target process, the result is Ok. And a guest that no
  handler stops and that never crashes or exits gets Timeout.
\<close>

theorem C7_Run_result:
  "(fst (Run Fatal Guest Buffer BufferSize s) = None) = (Cpu' s = None)
   \<and> (Cpu' s \<noteq> None \<longrightarrow>
        (\<exists>r. fst (Run Fatal Guest Buffer BufferSize s) = Some r \<and>
             r = TestcaseResult' (snd (Run Fatal Guest Buffer BufferSize s)) \<and>
             (r = Ok_t \<or> (\<exists>Vector. r = Crash_t Vector) \<or> r = Timeout_t)))
   \<and> fst (Run Fatal Guest Buffer BufferSize (s\<lparr>TestcaseResult' := Stale\<rparr>)) =
       fst (Run Fatal Guest Buffer BufferSize s)
   \<and> (Cpu' s \<noteq> None \<and> Suc k < unat (InstructionLimit' s) \<and>
      (\<forall>j<k. \<not> handler_stops s (Guest j) \<and>
          \<not> crashes_or_exits Fatal (InitialCr3' s) (Guest j)) \<longrightarrow>
        (handler_stops s (Guest k) \<longrightarrow>
           fst (Run Fatal Guest Buffer BufferSize s) = Ins_Handler (Guest k))
      \<and> (\<forall>Vector. \<not> handler_stops s (Guest k) \<and>
            Ins_Event (Guest k) = Exception Vector \<and> Fatal Vector \<longrightarrow>
           fst (Run Fatal Guest Buffer BufferSize s) = Some (Crash_t Vector))
      \<and> (\<forall>NewCrValue. \<not> handler_stops s (Guest k) \<and>
            Ins_Event (Guest k) = TlbControl NewCrValue \<and> NewCrValue \<noteq> InitialCr3' s \<longrightarrow>
           fst (Run Fatal Guest Buffer BufferSize s) = Some Ok_t))
   \<and> (Cpu' s \<noteq> None \<and>
      (\<forall>j. \<not> handler_stops s (Guest j) \<and>
          \<not> crashes_or_exits Fatal (InitialCr3' s) (Guest j)) \<longrightarrow>
        fst (Run Fatal Guest Buffer BufferSize s) = Some Timeout_t)
   \<and> (fst (Initialize Valid Dump Opts CpuState s) \<longrightarrow>
        fst (Run Fatal Guest Buffer BufferSize (snd (Initialize Valid Dump Opts CpuState s)))
          \<noteq> None)
   \<and> (\<not> fst (Initialize Valid Dump Opts CpuState BochscpuBackend_t_ctor) \<longrightarrow>
        fst (Run Fatal Guest Buffer BufferSize
               (snd (Initialize Valid Dump Opts CpuState BochscpuBackend_t_ctor))) = None)"
proof -
  have ex: "\<And>r. r = Ok_t \<or> (\<exists>Vector. r = Crash_t Vector) \<or> r = Timeout_t"
    by (metis TestcaseResult_t.exhaust)
  have a: "Cpu' s \<noteq> None \<longrightarrow>
        (\<exists>r. fst (Run Fatal Guest Buffer BufferSize s) = Some r \<and>
             r = TestcaseResult' (snd (Run Fatal Guest Buffer BufferSize s)) \<and>
             (r = Ok_t \<or> (\<exists>Vector. r = Crash_t Vector) \<or> r = Timeout_t))"
    using ex by (auto simp: Run_def Let_def split: option.splits)
  have b: "Cpu' s \<noteq> None \<and> Suc k < unat (InstructionLimit' s) \<and>
      (\<forall>j<k. \<not> handler_stops s (Guest j) \<and>
          \<not> crashes_or_exits Fatal (InitialCr3' s) (Guest j)) \<longrightarrow>
        (handler_stops s (Guest k) \<longrightarrow>
           fst (Run Fatal Guest Buffer BufferSize s) = Ins_Handler (Guest k))
      \<and> (\<forall>Vector. \<not> handler_stops s (Guest k) \<and>
            Ins_Event (Guest k) = Exception Vector \<and> Fatal Vector \<longrightarrow>
           fst (Run Fatal Guest Buffer BufferSize s) = Some (Crash_t Vector))
      \<and> (\<forall>NewCrValue. \<not> handler_stops s (Guest k) \<and>
            Ins_Event (Guest k) = TlbControl NewCrValue \<and> NewCrValue \<noteq> InitialCr3' s \<longrightarrow>
           fst (Run Fatal Guest Buffer BufferSize s) = Some Ok_t)"
  proof (intro impI)
    assume h: "Cpu' s \<noteq> None \<and> Suc k < unat (InstructionLimit' s) \<and>
      (\<forall>j<k. \<not> handler_stops s (Guest j) \<and>
          \<not> crashes_or_exits Fatal (InitialCr3' s) (Guest j))"
    note at = Run_stops_at [of s k Guest Fatal Buffer BufferSize]
    show "(handler_stops s (Guest k) \<longrightarrow>
           fst (Run Fatal Guest Buffer BufferSize s) = Ins_Handler (Guest k))
      \<and> (\<forall>Vector. \<not> handler_stops s (Guest k) \<and>
            Ins_Event (Guest k) = Exception Vector \<and> Fatal Vector \<longrightarrow>
           fst (Run Fatal Guest Buffer BufferSize s) = Some (Crash_t Vector))
      \<and> (\<forall>NewCrValue. \<not> handler_stops s (Guest k) \<and>
            Ins_Event (Guest k) = TlbControl NewCrValue \<and> NewCrValue \<noteq> InitialCr3' s \<longrightarrow>
           fst (Run Fatal Guest Buffer BufferSize s) = Some Ok_t)"
      using at h by (auto simp: crashes_or_exits_def)
  qed
  have c: "Cpu' s \<noteq> None \<and>
      (\<forall>j. \<not> handler_stops s (Guest j) \<and>
          \<not> crashes_or_exits Fatal (InitialCr3' s) (Guest j)) \<longrightarrow>
        fst (Run Fatal Guest Buffer BufferSize s) = Some Timeout_t"
    using Run_never_stops [of s Guest Fatal Buffer BufferSize] by blast
  have d: "fst (Initialize Valid Dump Opts CpuState s) \<longrightarrow>
        fst (Run Fatal Guest Buffer BufferSize (snd (Initialize Valid Dump Opts CpuState s)))
          \<noteq> None"
    by (simp add: Run_None Initialize_Cpu)
  have e: "\<not> fst (Initialize Valid Dump Opts CpuState BochscpuBackend_t_ctor) \<longrightarrow>
        fst (Run Fatal Guest Buffer BufferSize
               (snd (Initialize Valid Dump Opts CpuState BochscpuBackend_t_ctor))) = None"
    by (simp add: Run_None Initialize_Cpu BochscpuBackend_t_ctor_def member_initializers_def)
  show ?thesis
    by (intro conjI) (rule Run_None a Run_stale b c d e)+
qed

text \<open>
  A backend initialised with the limit 3. A guest whose second instruction raises the
  fatal vector 13 gives the crash 13; one whose second instruction leaves the process
  gives Ok; one that raises the benign vector 14 at every instruction gives Timeout;
  with a breakpoint at the address, a handler that stops the run at the second
  instruction gives its result. On a new backend whose initialisation failed on a
  malformed image the run gives no result.
\<close>

theorem C7_Run_result_witness:
  "(let Fatal = (\<lambda>Vector. Vector = 13);
        Opts = \<lparr>Limit = 3, TraceType = NoTrace, TraceTarget = None\<rparr>;
        CpuState = \<lparr>Regs = (\<lambda>Reg. 0), Cr3 = 0x1AB000\<rparr>;
        s = snd (Initialize (\<lambda>CpuState. True) (Some [Gpa_t 0x1000 \<mapsto> [1, 2, 3]]) Opts CpuState
                   BochscpuBackend_t_ctor)
    in fst (Run Fatal (\<lambda>i. \<lparr>Ins_Rip = Gva_t 0x1000, Ins_Handler = None,
                Ins_Event = if i = 1 then Exception 13 else Retires\<rparr>) [] 0 s)
         = Some (Crash_t 13)
     \<and> fst (Run Fatal (\<lambda>i. \<lparr>Ins_Rip = Gva_t 0x1000, Ins_Handler = None,
                Ins_Event = if i = 1 then TlbControl 0x5000 else Retires\<rparr>) [] 0 s)
         = Some Ok_t
     \<and> fst (Run Fatal (\<lambda>i. \<lparr>Ins_Rip = Gva_t 0x1000, Ins_Handler = None,
                Ins_Event = Exception 14\<rparr>) [] 0 s)
         = Some Timeout_t
     \<and> fst (Run Fatal (\<lambda>i. \<lparr>Ins_Rip = Gva_t 0x1000,
                Ins_Handler = if i = 1 then Some (Crash_t 6) else None,
                Ins_Event = Retires\<rparr>) [] 0 (s\<lparr>Breakpoints' := [Gva_t 0x1000 \<mapsto> 7]\<rparr>))
         = Some (Crash_t 6)
     \<and> fst (Run Fatal (\<lambda>i. \<lparr>Ins_Rip = Gva_t 0x1000, Ins_Handler = None,
                Ins_Event = Retires\<rparr>) [] 0
              (snd (Initialize (\<lambda>CpuState. True) None Opts CpuState BochscpuBackend_t_ctor)))
         = None)"
proof -
  let ?F = "\<lambda>Vector :: u32. Vector = 13"
  let ?O = "\<lparr>Limit = 3, TraceType = NoTrace, TraceTarget = None\<rparr>"
  let ?C = "\<lparr>Regs = (\<lambda>Reg :: nat. 0 :: u64), Cr3 = 0x1AB000\<rparr>"
  let ?V = "\<lambda>CpuState :: CpuState_t. True"
  let ?D = "Some [Gpa_t 0x1000 \<mapsto> [1, 2, 3 :: u8]]"
  let ?s = "snd (Initialize ?V ?D ?O ?C BochscpuBackend_t_ctor)"
  let ?b = "?s\<lparr>Breakpoints' := [Gva_t 0x1000 \<mapsto> 7]\<rparr>"
  let ?G1 = "\<lambda>i :: nat. \<lparr>Ins_Rip = Gva_t 0x1000, Ins_Handler = None,
                Ins_Event = if i = 1 then Exception 13 else Retires\<rparr>"
  let ?G2 = "\<lambda>i :: nat. \<lparr>Ins_Rip = Gva_t 0x1000, Ins_Handler = None,
                Ins_Event = if i = 1 then TlbControl 0x5000 else Retires\<rparr>"
  let ?G3 = "\<lambda>i :: nat. \<lparr>Ins_Rip = Gva_t 0x1000, Ins_Handler = None,
                Ins_Event = Exception 14\<rparr>"
  let ?G4 = "\<lambda>i :: nat. \<lparr>Ins_Rip = Gva_t 0x1000,
                Ins_Handler = if i = 1 then Some (Crash_t 6) else None,
                Ins_Event = Retires\<rparr>"
  let ?G5 = "\<lambda>i :: nat. \<lparr>Ins_Rip = Gva_t 0x1000, Ins_Handler = None,
                Ins_Event = Retires\<rparr>"
  have s: "Cpu' ?s \<noteq> None" "Suc 1 < unat (InstructionLimit' ?s)"
    "InitialCr3' ?s = 0x1AB000" "Breakpoints' ?s = Map.empty"
    by (simp_all add: Initialize_def BochscpuBackend_t_ctor_def member_initializers_def)
  have b: "Cpu' ?b \<noteq> None" "Suc 1 < unat (InstructionLimit' ?b)"
    "InitialCr3' ?b = 0x1AB000" "Breakpoints' ?b = [Gva_t 0x1000 \<mapsto> 7]"
    by (simp_all add: Initialize_def BochscpuBackend_t_ctor_def member_initializers_def)
  have q1: "\<forall>j<1. \<not> handler_stops ?s (?G1 j) \<and> \<not> crashes_or_exits ?F (InitialCr3' ?s) (?G1 j)"
    "\<not> handler_stops ?s (?G1 1) \<and> Ins_Event (?G1 1) = Exception 13 \<and> ?F 13"
    unfolding s by (simp_all add: handler_stops_def crashes_or_exits_def)
  have w1: "fst (Run ?F ?G1 [] 0 ?s) = Some (Crash_t 13)"
    using C7_Run_result [of ?F ?G1 "[]" 0 ?s Ok_t 1 ?V ?D ?O ?C] s(1,2) q1 by blast
  have q2: "\<forall>j<1. \<not> handler_stops ?s (?G2 j) \<and> \<not> crashes_or_exits ?F (InitialCr3' ?s) (?G2 j)"
    "\<not> handler_stops ?s (?G2 1) \<and> Ins_Event (?G2 1) = TlbControl 0x5000
       \<and> 0x5000 \<noteq> InitialCr3' ?s"
    unfolding s by (simp_all add: handler_stops_def crashes_or_exits_def)
  have w2: "fst (Run ?F ?G2 [] 0 ?s) = Some Ok_t"
    using C7_Run_result [of ?F ?G2 "[]" 0 ?s Ok_t 1 ?V ?D ?O ?C] s(1,2) q2 by blast
  have q3: "\<forall>j. \<not> handler_stops ?s (?G3 j) \<and> \<not> crashes_or_exits ?F (InitialCr3' ?s) (?G3 j)"
    unfolding s by (simp add: handler_stops_def crashes_or_exits_def)
  have w3: "fst (Run ?F ?G3 [] 0 ?s) = Some Timeout_t"
    using C7_Run_result [of ?F ?G3 "[]" 0 ?s Ok_t 1 ?V ?D ?O ?C] s(1) q3 by blast
  have q4: "\<forall>j<1. \<not> handler_stops ?b (?G4 j) \<and> \<not> crashes_or_exits ?F (InitialCr3' ?b) (?G4 j)"
    "handler_stops ?b (?G4 1)" "Ins_Handler (?G4 1) = Some (Crash_t 6)"
    unfolding b by (simp_all add: handler_stops_def crashes_or_exits_def)
  have w4: "fst (Run ?F ?G4 [] 0 ?b) = Some (Crash_t 6)"
    using C7_Run_result [of ?F ?G4 "[]" 0 ?b Ok_t 1 ?V ?D ?O ?C] b(1,2) q4 by metis
  have "\<not> fst (Initialize ?V None ?O ?C BochscpuBackend_t_ctor)"
    by (simp add: Initialize_def)
  then have w5: "fst (Run ?F ?G5 [] 0 (snd (Initialize ?V None ?O ?C BochscpuBackend_t_ctor)))
      = None"
    using C7_Run_result [of ?F ?G5 "[]" 0 ?s Ok_t 1 ?V None ?O ?C] by blast
  show ?thesis
    unfolding Let_def by (intro conjI) (rule w1 w2 w3 w4 w5)+
qed

section \<open>Properties of the coverage tracker\<close>

text \<open>
  Claim C6. After a run, \<^verbatim>\<open>LastNewCoverage_\<close> is what the run added to the aggregated
  coverage, and \<^verbatim>\<open>RevokeLastNewCoverage\<close> gives back the aggregated coverage of before
  the run. In any state it removes the addresses of \<^verbatim>\<open>LastNewCoverage_\<close> from the
  aggregated coverage, clears \<^verbatim>\<open>LastNewCoverage_\<close> and succeeds; a second call right
  after changes nothing and succeeds too.
\<close>

theorem C6_RevokeLastNewCoverage:
  "AggregatedCodeCoverage'
     (snd (RevokeLastNewCoverage (snd (Run Fatal Guest Buffer BufferSize s)))) =
     AggregatedCodeCoverage' s
   \<and> LastNewCoverage' (snd (Run Fatal Guest Buffer BufferSize s)) =
       AggregatedCodeCoverage' (snd (Run Fatal Guest Buffer BufferSize s)) -
       AggregatedCodeCoverage' s
   \<and> AggregatedCodeCoverage' (snd (RevokeLastNewCoverage t)) =
       AggregatedCodeCoverage' t - LastNewCoverage' t
   \<and> LastNewCoverage' (snd (RevokeLastNewCoverage t)) = {}
   \<and> fst (RevokeLastNewCoverage t) = True
   \<and> RevokeLastNewCoverage (snd (RevokeLastNewCoverage t)) =
       (True, snd (RevokeLastNewCoverage t))"
proof -
  let ?s1 = "s\<lparr>LastNewCoverage' := {},
                 RunStats' := Reset (RunStats' s),
                 TestcaseBuffer' := Some Buffer,
                 TestcaseBufferSize' := BufferSize\<rparr>"
  let ?A = "AggregatedCodeCoverage' s"
  let ?u = "snd (Run Fatal Guest Buffer BufferSize s)"
  have inv: "LastNewCoverage' ?u \<inter> ?A = {} \<and>
      AggregatedCodeCoverage' ?u = ?A \<union> LastNewCoverage' ?u"
  proof (cases "Cpu' s")
    case None
    then show ?thesis by (simp add: Run_def Let_def)
  next
    case (Some Cpu)
    then have "?u = bochscpu_cpu_run Fatal Guest 0 ?s1" by (simp add: Run_def Let_def)
    then show ?thesis using run_coverage [of ?s1 ?A Fatal Guest 0] by simp
  qed
  then have "AggregatedCodeCoverage' ?u - LastNewCoverage' ?u = ?A"
    and "LastNewCoverage' ?u = AggregatedCodeCoverage' ?u - ?A"
    by auto
  then show ?thesis by (simp add: RevokeLastNewCoverage_def)
qed

text \<open>
  The address 0x1000 is covered before the run; the run executes 0x1000, 0x1001 and
  0x1002. The revoke removes the two new addresses and keeps 0x1000.
\<close>

theorem C6_RevokeLastNewCoverage_witness:
  "AggregatedCodeCoverage' (snd (Run (\<lambda>Vector. Vector = 13)
        (\<lambda>i. \<lparr>Ins_Rip = Gva_t (0x1000 + of_nat i), Ins_Handler = None, Ins_Event = Retires\<rparr>) [] 0
        (SetLimit 3 (BochscpuBackend_t_ctor\<lparr>Cpu' := Some 0,
           AggregatedCodeCoverage' := {Gva_t 0x1000}\<rparr>)))) =
     {Gva_t 0x1000, Gva_t 0x1001, Gva_t 0x1002}
   \<and> LastNewCoverage' (snd (Run (\<lambda>Vector. Vector = 13)
        (\<lambda>i. \<lparr>Ins_Rip = Gva_t (0x1000 + of_nat i), Ins_Handler = None, Ins_Event = Retires\<rparr>) [] 0
        (SetLimit 3 (BochscpuBackend_t_ctor\<lparr>Cpu' := Some 0,
           AggregatedCodeCoverage' := {Gva_t 0x1000}\<rparr>)))) =
     {Gva_t 0x1001, Gva_t 0x1002}
   \<and> AggregatedCodeCoverage' (snd (RevokeLastNewCoverage (snd (Run (\<lambda>Vector. Vector = 13)
        (\<lambda>i. \<lparr>Ins_Rip = Gva_t (0x1000 + of_nat i), Ins_Handler = None, Ins_Event = Retires\<rparr>) [] 0
        (SetLimit 3 (BochscpuBackend_t_ctor\<lparr>Cpu' := Some 0,
           AggregatedCodeCoverage' := {Gva_t 0x1000}\<rparr>)))))) =
     {Gva_t 0x1000}"
proof -
  let ?s = "SetLimit 3 (BochscpuBackend_t_ctor\<lparr>Cpu' := Some 0,
           AggregatedCodeCoverage' := {Gva_t 0x1000}\<rparr>)"
  let ?G = "\<lambda>i :: nat. \<lparr>Ins_Rip = Gva_t (0x1000 + of_nat i), Ins_Handler = None, Ins_Event = Retires\<rparr>"
  let ?F = "\<lambda>Vector :: u32. Vector = 13"
  have agg: "AggregatedCodeCoverage' (snd (Run ?F ?G [] 0 ?s)) =
      {Gva_t 0x1000, Gva_t 0x1001, Gva_t 0x1002}"
    by code_simp
  have old: "AggregatedCodeCoverage' ?s = {Gva_t 0x1000}"
    by (simp add: SetLimit_def)
  show ?thesis
    using C6_RevokeLastNewCoverage [of ?F ?G "[]" 0 ?s] agg old
    by auto
qed

end
